theory Spec2Isabelle
  imports Complex_Main
begin

section \<open>The hotspot-analysis endpoint (POST handler of the thermal route)\<close>

text \<open>
  The development follows the handler \<^verbatim>\<open>POST\<close> of the hotspot route top to bottom:
  the in-process rate limiter, the input validation, the colour-statistics detector
  that decides whether an image is thermal, the post-processing of the
  inference result, and the audit line the handler prints.

  JavaScript numbers that come out of \<^verbatim>\<open>Date.now()\<close> are integers and are
  modelled as \<^typ>\<open>int\<close>; the other numbers are modelled as \<^typ>\<open>real\<close>, a double
  standing for the real number it denotes, with a separate value for \<^verbatim>\<open>NaN\<close> where
  the handler can produce one. Two quotients are compared or rounded right after the
  division: a bias, the ratio of two bucket counts of at most 512, against the literal
  \<^verbatim>\<open>0.3\<close>, and \<^verbatim>\<open>retryAfter\<close>, the ceiling of a whole number of milliseconds over
  1000; in both the rounding of the double quotient cannot change the outcome.
\<close>

subsection \<open>Constants\<close>

definition MAX_FILE_SIZE :: nat where
  "MAX_FILE_SIZE = 50 * 1024 * 1024"

definition ALLOWED_FORMATS :: "string list" where
  "ALLOWED_FORMATS = [''jpeg'', ''jpg'', ''png'', ''tiff'', ''bmp'']"

definition MAX_IMAGE_DIMENSION :: nat where
  "MAX_IMAGE_DIMENSION = 8192"

definition RATE_LIMIT :: nat where
  "RATE_LIMIT = 100"

definition RATE_WINDOW :: int where
  "RATE_WINDOW = 3600000"

subsection \<open>Rate limiter\<close>

text \<open>
  \<^verbatim>\<open>rateLimitStore\<close> is a \<^verbatim>\<open>Map\<close> from the client key to \<^verbatim>\<open>{count, resetTime}\<close>.
  The handler mutates it in place; the model returns the new map.
\<close>

record rate_entry =
  count :: nat
  resetTime :: int

type_synonym rate_store = "string \<rightharpoonup> rate_entry"

datatype rate_outcome = Rejected int | Proceed

text \<open>
  Lines 61 to 87 of the handler. \<^verbatim>\<open>Rejected r\<close> is the early return with status 429
  and \<^verbatim>\<open>retryAfter = Math.ceil((resetTime - now) / 1000)\<close>.
\<close>

definition rateLimitCheck :: "rate_store \<Rightarrow> string \<Rightarrow> int \<Rightarrow> rate_outcome \<times> rate_store" where
  "rateLimitCheck store rateLimitKey now =
     (case store rateLimitKey of
        Some userLimit \<Rightarrow>
          if resetTime userLimit > now \<and> count userLimit \<ge> RATE_LIMIT
          then (Rejected \<lceil>real_of_int (resetTime userLimit - now) / 1000\<rceil>, store)
          else if resetTime userLimit \<le> now
          then (Proceed, store(rateLimitKey \<mapsto> \<lparr>count = 1, resetTime = now + RATE_WINDOW\<rparr>))
          else (Proceed, store(rateLimitKey \<mapsto> userLimit\<lparr>count := count userLimit + 1\<rparr>))
      | None \<Rightarrow>
          (Proceed, store(rateLimitKey \<mapsto> \<lparr>count = 1, resetTime = now + RATE_WINDOW\<rparr>)))"

subsection \<open>JavaScript numbers\<close>

text \<open>
  The colour statistics can become \<^verbatim>\<open>NaN\<close> (a read past the end of the pixel buffer
  gives \<^verbatim>\<open>undefined\<close>, and \<^verbatim>\<open>0 / 0\<close> is \<^verbatim>\<open>NaN\<close>). Every comparison with \<^verbatim>\<open>NaN\<close>
  is false and every sum with \<^verbatim>\<open>NaN\<close> is \<^verbatim>\<open>NaN\<close>.
\<close>

datatype jsnum = NaN | Num real

fun js_gt :: "jsnum \<Rightarrow> real \<Rightarrow> bool" where
  "js_gt (Num a) b = (a > b)"
| "js_gt NaN b = False"

fun js_lt :: "jsnum \<Rightarrow> real \<Rightarrow> bool" where
  "js_lt (Num a) b = (a < b)"
| "js_lt NaN b = False"

fun js_add :: "jsnum \<Rightarrow> jsnum \<Rightarrow> jsnum" where
  "js_add (Num a) (Num b) = Num (a + b)"
| "js_add _ _ = NaN"

subsection \<open>Thermal pattern detector: sampling\<close>

text \<open>
  \<^verbatim>\<open>sharp(buffer).raw().toBuffer({resolveWithObject: true})\<close> gives the bytes and
  \<^verbatim>\<open>info = {width, height, channels}\<close>.
\<close>

record raw_image =
  pixelArray :: "nat list"
  info_width :: nat
  info_height :: nat
  info_channels :: nat

text \<open>\<^verbatim>\<open>pixelArray[idx]\<close>: \<^verbatim>\<open>undefined\<close> (here \<open>None\<close>) past the end of the buffer.\<close>

definition at_index :: "nat list \<Rightarrow> nat \<Rightarrow> nat option" where
  "at_index a idx = (if idx < length a then Some (a ! idx) else None)"

text \<open>
  A colour key is the string \<^verbatim>\<open>`${floor(r/32)}-${floor(g/32)}-${floor(b/32)}`\<close>; it is
  modelled by the triple of its three components, \<open>None\<close> standing for the text
  \<^verbatim>\<open>NaN\<close> that an undefined channel prints as.
\<close>

type_synonym colorKey = "nat option \<times> nat option \<times> nat option"

definition level :: "nat option \<Rightarrow> nat option" where
  "level c = map_option (\<lambda>v. v div 32) c"

text \<open>
  \<^verbatim>\<open>Math.abs(r - gray) + Math.abs(g - gray) + Math.abs(b - gray)\<close> with
  \<^verbatim>\<open>gray = (r + g + b) / 3\<close>.
\<close>

fun deviation :: "nat option \<Rightarrow> nat option \<Rightarrow> nat option \<Rightarrow> jsnum" where
  "deviation (Some r) (Some g) (Some b) =
     (let gray = (real r + real g + real b) / 3
      in Num (\<bar>real r - gray\<bar> + \<bar>real g - gray\<bar> + \<bar>real b - gray\<bar>))"
| "deviation _ _ _ = NaN"

text \<open>
  \<^verbatim>\<open>colorHistogram\<close> is a \<^verbatim>\<open>Map\<close> from colour key to count; the association list
  keeps the keys in insertion order, each key once.
\<close>

type_synonym histogram = "(colorKey \<times> nat) list"

definition hist_incr :: "colorKey \<Rightarrow> histogram \<Rightarrow> histogram" where
  "hist_incr colorKey h =
     (case map_of h colorKey of
        None \<Rightarrow> h @ [(colorKey, 1)]
      | Some c \<Rightarrow> map (\<lambda>(k, n). if k = colorKey then (k, n + 1) else (k, n)) h)"

record sampling =
  colorVariance :: jsnum
  totalPixels :: nat
  colorHistogram :: histogram

definition sample_pixel :: "raw_image \<Rightarrow> nat \<Rightarrow> nat \<Rightarrow> sampling \<Rightarrow> sampling" where
  "sample_pixel img y x s =
     (let idx = (y * info_width img + x) * info_channels img;
          r = at_index (pixelArray img) idx;
          g = at_index (pixelArray img) (idx + 1);
          b = at_index (pixelArray img) (idx + 2)
      in \<lparr>colorVariance = js_add (colorVariance s) (deviation r g b),
          totalPixels = totalPixels s + 1,
          colorHistogram = hist_incr (level r, level g, level b) (colorHistogram s)\<rparr>)"

text \<open>The inner loop \<^verbatim>\<open>for (let x = 0; x < w; x += 20)\<close>.\<close>

function sample_cols :: "raw_image \<Rightarrow> nat \<Rightarrow> nat \<Rightarrow> sampling \<Rightarrow> sampling" where
  "sample_cols img y x s =
     (if x < info_width img then sample_cols img y (x + 20) (sample_pixel img y x s) else s)"
  by pat_completeness auto
termination
  by (relation "measure (\<lambda>(img, y, x, s). info_width img - x)") auto

text \<open>The outer loop \<^verbatim>\<open>for (let y = 0; y < h; y += 20)\<close>.\<close>

function sample_rows :: "raw_image \<Rightarrow> nat \<Rightarrow> sampling \<Rightarrow> sampling" where
  "sample_rows img y s =
     (if y < info_height img then sample_rows img (y + 20) (sample_cols img y 0 s) else s)"
  by pat_completeness auto
termination
  by (relation "measure (\<lambda>(img, y, s). info_height img - y)") auto

definition sample_image :: "raw_image \<Rightarrow> sampling" where
  "sample_image img =
     sample_rows img 0 \<lparr>colorVariance = Num 0, totalPixels = 0, colorHistogram = []\<rparr>"

subsection \<open>Thermal pattern detector: features and verdict\<close>

text \<open>
  \<^verbatim>\<open>colorVariance / totalPixels\<close>. With no sample both are zero and the quotient is
  \<^verbatim>\<open>NaN\<close>.
\<close>

definition avgColorVariance :: "sampling \<Rightarrow> jsnum" where
  "avgColorVariance s =
     (case colorVariance s of
        NaN \<Rightarrow> NaN
      | Num v \<Rightarrow> if totalPixels s = 0 then NaN else Num (v / real (totalPixels s)))"

definition uniqueColors :: "sampling \<Rightarrow> nat" where
  "uniqueColors s = length (colorHistogram s)"

text \<open>
  The filters split the key at \<^verbatim>\<open>-\<close> and apply \<^verbatim>\<open>Number\<close>: a \<^verbatim>\<open>NaN\<close> component
  makes both comparisons false.
\<close>

fun redDominant :: "colorKey \<Rightarrow> bool" where
  "redDominant (Some r, Some g, Some b) = (r > g \<and> r > b)"
| "redDominant _ = False"

fun blueDominant :: "colorKey \<Rightarrow> bool" where
  "blueDominant (Some r, Some g, Some b) = (b > r \<and> b > g)"
| "blueDominant _ = False"

definition redBias :: "sampling \<Rightarrow> real" where
  "redBias s =
     (if js_gt (colorVariance s) 0
      then real (length (filter redDominant (map fst (colorHistogram s))))
             / real (length (colorHistogram s))
      else 0)"

definition blueBias :: "sampling \<Rightarrow> real" where
  "blueBias s =
     (if js_gt (colorVariance s) 0
      then real (length (filter blueDominant (map fst (colorHistogram s))))
             / real (length (colorHistogram s))
      else 0)"

definition hasHighColorVariance :: "jsnum \<Rightarrow> bool" where
  "hasHighColorVariance avg = js_gt avg 50"

definition hasModerateColors :: "nat \<Rightarrow> bool" where
  "hasModerateColors uniq = (uniq > 50 \<and> uniq < 300)"

definition hasColorGradient :: "nat \<Rightarrow> jsnum \<Rightarrow> bool" where
  "hasColorGradient uniq avg = (uniq > 100 \<and> js_gt avg 100)"

definition hasThermalBias :: "real \<Rightarrow> real \<Rightarrow> bool" where
  "hasThermalBias rb bb = (rb > 3 / 10 \<or> bb > 3 / 10)"

definition thermalColorPattern :: "nat \<Rightarrow> jsnum \<Rightarrow> real \<Rightarrow> real \<Rightarrow> bool" where
  "thermalColorPattern uniq avg rb bb =
     ((hasThermalBias rb bb \<and> hasModerateColors uniq)
      \<or> (hasColorGradient uniq avg \<and> hasHighColorVariance avg)
      \<or> (uniq < 50 \<and> js_lt avg 10)
      \<or> (js_gt avg 150 \<and> uniq > 100))"

definition isThermalImage :: "bool \<Rightarrow> string \<Rightarrow> bool \<Rightarrow> bool" where
  "isThermalImage demoMode imageType pattern =
     (demoMode
      \<or> (imageType = ''thermal'' \<and> pattern)
      \<or> (imageType \<noteq> ''visual'' \<and> pattern))"

text \<open>The detector as the handler runs it on the sampled statistics.\<close>

definition detectPattern :: "sampling \<Rightarrow> bool" where
  "detectPattern s =
     thermalColorPattern (uniqueColors s) (avgColorVariance s) (redBias s) (blueBias s)"

definition detectThermal :: "bool \<Rightarrow> string \<Rightarrow> sampling \<Rightarrow> bool" where
  "detectThermal demoMode imageType s = isThermalImage demoMode imageType (detectPattern s)"

subsection \<open>Defaults and rounding\<close>

text \<open>
  \<^verbatim>\<open>v || d\<close> gives \<open>d\<close> when \<open>v\<close> is absent or falsy: for a number, zero; for a
  string, the empty string. \<^verbatim>\<open>Math.round\<close> rounds halves up.
\<close>

definition num_or :: "real option \<Rightarrow> real \<Rightarrow> real" where
  "num_or v d = (case v of None \<Rightarrow> d | Some a \<Rightarrow> if a = 0 then d else a)"

definition str_or :: "string option \<Rightarrow> string \<Rightarrow> string" where
  "str_or v d = (case v of None \<Rightarrow> d | Some a \<Rightarrow> if a = [] then d else a)"

definition js_round :: "real \<Rightarrow> int" where
  "js_round v = \<lfloor>v + 1 / 2\<rfloor>"

text \<open>\<^verbatim>\<open>s.includes(sub)\<close>.\<close>

fun includes_str :: "string \<Rightarrow> string \<Rightarrow> bool" where
  "includes_str [] sub = (sub = [])"
| "includes_str (c # cs) sub = (take (length sub) (c # cs) = sub \<or> includes_str cs sub)"

text \<open>\<^verbatim>\<open>file.name.split('.').pop()?.toLowerCase()\<close>, on ASCII names.\<close>

definition lower_char :: "char \<Rightarrow> char" where
  "lower_char c =
     (let n = (of_char c :: nat) in if 65 \<le> n \<and> n \<le> 90 then char_of (n + 32) else c)"

definition fileExtension :: "string \<Rightarrow> string" where
  "fileExtension name = map lower_char (rev (takeWhile (\<lambda>c. c \<noteq> CHR ''.'') (rev name)))"

subsection \<open>Request, inference result, response, audit record\<close>

record upload =
  file_name :: string
  file_size :: nat
  file_type :: string

text \<open>
  The multipart form. \<open>image\<close> is \<open>None\<close> when the field is missing or is not a
  \<^verbatim>\<open>File\<close>.
\<close>

record form_data =
  image :: "upload option"
  imageTypeField :: "string option"
  demoModeField :: "string option"

record image_metadata =
  meta_width :: "nat option"
  meta_height :: "nat option"
  meta_format :: "string option"
  meta_channels :: "nat option"

text \<open>
  A hotspot and a result as the inference service returns them, with the fields and
  types the handler's annotations give them: every field optional, numbers finite.
\<close>

record raw_hotspot =
  in_x :: "real option"
  in_y :: "real option"
  in_radius :: "real option"
  in_intensity :: "real option"
  in_area :: "real option"
  in_description :: "string option"

record vision_result =
  v_hotspots :: "raw_hotspot list option"
  v_severity :: "string option"
  v_maxTemperature :: "real option"
  v_analysis :: "string option"
  v_recommendations :: "string list option"
  v_confidence :: "real option"

text \<open>
  Everything the handler reads from outside: the clock, the generated identifier,
  the header, the parsed form, and the outcome of each awaited call. \<open>Inl msg\<close> is
  a thrown \<^verbatim>\<open>Error\<close> with that message. \<open>visionCall\<close> is the outcome of the whole
  guarded block around the inference call (request, \<^verbatim>\<open>JSON.parse\<close>, reading the
  fields): any exception there is \<open>Inl\<close>.
\<close>

record request =
  startTime :: int
  requestId :: string
  isoTime :: string
  forwardedFor :: "string option"
  now :: int
  formData :: "string + form_data"
  arrayBuffer :: "string + unit"
  sharpMetadata :: "string + image_metadata"
  sharpRaw :: "string + raw_image"
  visionCall :: "string + vision_result"
  responseTime :: int
  finishTime :: int

record hotspot =
  hs_x :: int
  hs_y :: int
  hs_radius :: int
  hs_intensity :: int
  hs_area :: real
  hs_description :: string

text \<open>
  The JSON bodies. A field the handler does not write is \<open>None\<close>, so that two
  bodies are equal exactly when they have the same fields with the same values.
\<close>

record result_metadata =
  totalHotspots :: nat
  maxTemperature :: "real option"
  affectedArea :: int
  message :: "string option"
  md_error :: "string option"
  md_imageType :: "string option"
  dimensions :: "(nat \<times> nat) option"
  md_processingTime :: "int option"
  md_timestamp :: "string option"
  analysis :: "string option"
  recommendations :: "string list option"
  aiModel :: "string option"
  md_confidence :: "real option"

record analysis_result =
  res_requestId :: "string option"
  severity :: string
  hotspots :: "hotspot list"
  confidence :: real
  metadata :: result_metadata

record error_body =
  error_text :: string
  err_requestId :: string
  retryAfter :: "int option"
  support :: "string option"

datatype body = Result analysis_result | Failed error_body

record response =
  status :: nat
  body :: body

datatype json = JStr string | JNum real | JBool bool | JUndefined | JObj "(string \<times> json) list"

datatype audit_status = success | failure

record auditLog =
  audit_requestId :: string
  audit_timestamp :: string
  audit_clientIp :: string
  audit_action :: string
  audit_status :: audit_status
  details :: "(string \<times> json) list"
  processingTime :: "int option"

text \<open>\<^verbatim>\<open>obj.key = v\<close> on an object kept as an association list.\<close>

definition set_field :: "string \<Rightarrow> json \<Rightarrow> (string \<times> json) list \<Rightarrow> (string \<times> json) list" where
  "set_field k v obj =
     (if k \<in> fst ` set obj then map (\<lambda>(k', v'). if k' = k then (k', v) else (k', v')) obj
      else obj @ [(k, v)])"

text \<open>
  What one call of the handler leaves behind: the response, the rate-limit map, the
  \<^verbatim>\<open>[AUDIT]\<close> lines printed, and how often the inference service was called.
\<close>

record outcome =
  response :: response
  rateLimitStore :: rate_store
  auditLines :: "auditLog list"
  visionCalls :: nat

subsection \<open>The handler, innermost stage first\<close>

text \<open>
  The outermost \<^verbatim>\<open>catch\<close> (lines 490 to 512): it records the message, prints the
  audit line and answers 500.
\<close>

definition outerCatch :: "request \<Rightarrow> rate_store \<Rightarrow> auditLog \<Rightarrow> string \<Rightarrow> outcome" where
  "outerCatch req store auditLog errorMessage =
     (let auditLog' = auditLog
            \<lparr>details := set_field ''error'' (JStr errorMessage) (details auditLog),
             processingTime := Some (finishTime req - startTime req)\<rparr>;
          clientError =
            (if includes_str errorMessage ''timeout''
             then ''Request timed out. Please try with a smaller image.''
             else ''An error occurred during analysis. Please try again.'')
      in \<lparr>response = \<lparr>status = 500,
             body = Failed \<lparr>error_text = clientError, err_requestId = requestId req,
               retryAfter = None,
               support = Some ''If this issue persists, please contact support with the request ID.''\<rparr>\<rparr>,
          rateLimitStore = store, auditLines = [auditLog'], visionCalls = 0\<rparr>)"

text \<open>A validation rejection (status 400): the handler returns at once.\<close>

definition reject400 :: "request \<Rightarrow> rate_store \<Rightarrow> string \<Rightarrow> outcome" where
  "reject400 req store msg =
     \<lparr>response = \<lparr>status = 400,
        body = Failed \<lparr>error_text = msg, err_requestId = requestId req,
          retryAfter = None, support = None\<rparr>\<rparr>,
      rateLimitStore = store, auditLines = [], visionCalls = 0\<rparr>"

text \<open>The body returned when the image is not thermal (lines 297 to 309).\<close>

definition nonThermalResult :: analysis_result where
  "nonThermalResult =
     \<lparr>res_requestId = None, severity = ''none'', hotspots = [], confidence = 95 / 100,
      metadata = \<lparr>totalHotspots = 0, maxTemperature = None, affectedArea = 0,
        message = Some ''Image does not appear to be a thermal image'',
        md_error = None, md_imageType = None, dimensions = None, md_processingTime = None,
        md_timestamp = None, analysis = None, recommendations = None, aiModel = None,
        md_confidence = None\<rparr>\<rparr>"

text \<open>The body returned from the \<^verbatim>\<open>catch (visionError)\<close> block (lines 423 to 440).\<close>

definition fallbackResult :: analysis_result where
  "fallbackResult =
     \<lparr>res_requestId = None, severity = ''unknown'', hotspots = [], confidence = 5 / 10,
      metadata = \<lparr>totalHotspots = 0, maxTemperature = None, affectedArea = 0,
        message = Some ''Advanced analysis temporarily unavailable. Please try again.'',
        md_error = Some ''vision_api_error'', md_imageType = None, dimensions = None,
        md_processingTime = None, md_timestamp = None, analysis = None,
        recommendations = None, aiModel = None, md_confidence = None\<rparr>\<rparr>"

text \<open>The mapping over \<^verbatim>\<open>visionResult.hotspots\<close> (lines 388 to 402).\<close>

definition normalizeHotspot :: "raw_hotspot \<Rightarrow> hotspot" where
  "normalizeHotspot h =
     \<lparr>hs_x = js_round (num_or (in_x h) 0),
      hs_y = js_round (num_or (in_y h) 0),
      hs_radius = js_round (num_or (in_radius h) 20),
      hs_intensity = js_round (num_or (in_intensity h) 50),
      hs_area = num_or (in_area h) 1000,
      hs_description = str_or (in_description h) ''Thermal anomaly detected''\<rparr>"

text \<open>
  \<^verbatim>\<open>hotspots.reduce((sum, h) => sum + (h.area || Math.PI * h.radius * h.radius), 0)\<close>;
  \<^verbatim>\<open>Math.PI\<close> is the double nearest to \<open>\<pi>\<close>, written here as the fraction it is.
\<close>

definition Math_PI :: real where
  "Math_PI = 884279719003555 / 281474976710656"

definition totalArea :: "hotspot list \<Rightarrow> real" where
  "totalArea hs =
     foldl (\<lambda>sum h. sum + (if hs_area h \<noteq> 0 then hs_area h
                            else Math_PI * real_of_int (hs_radius h) * real_of_int (hs_radius h)))
       0 hs"

text \<open>
  Lines 464 to 474: the confidence stored with the inference metadata replaces the
  base confidence when it is truthy, divided by 100 when above 1.
\<close>

definition mergeConfidence :: "real \<Rightarrow> real \<Rightarrow> real" where
  "mergeConfidence base aiConfidence =
     (if aiConfidence \<noteq> 0
      then (if aiConfidence > 1 then aiConfidence / 100 else aiConfidence)
      else base)"

text \<open>Lines 404 to 474 and 488: the body of the successful answer.\<close>

definition finalResponse ::
  "request \<Rightarrow> bool \<Rightarrow> image_metadata \<Rightarrow> vision_result \<Rightarrow> analysis_result" where
  "finalResponse req thermal md visionResult =
     (let hs = map normalizeHotspot (case v_hotspots visionResult of None \<Rightarrow> [] | Some l \<Rightarrow> l);
          maxTemp = (case v_maxTemperature visionResult of
                       None \<Rightarrow> None | Some t \<Rightarrow> if t = 0 then None else Some t);
          aiConfidence = num_or (v_confidence visionResult) (85 / 100)
      in \<lparr>res_requestId = Some (requestId req),
          severity = str_or (v_severity visionResult) ''medium'',
          hotspots = take 50 hs,
          confidence = mergeConfidence (if thermal then 85 / 100 else 0) aiConfidence,
          metadata = \<lparr>totalHotspots = length hs, maxTemperature = maxTemp,
            affectedArea = js_round (totalArea hs / 100),
            message = None, md_error = None,
            md_imageType = Some (if thermal then ''thermal'' else ''visual''),
            dimensions = Some (case meta_width md of None \<Rightarrow> 0 | Some w \<Rightarrow> w,
                               case meta_height md of None \<Rightarrow> 0 | Some h \<Rightarrow> h),
            md_processingTime = Some (responseTime req - startTime req),
            md_timestamp = Some (isoTime req),
            analysis = Some (str_or (v_analysis visionResult) ''Thermal analysis completed''),
            recommendations = Some (case v_recommendations visionResult of
                                      None \<Rightarrow> [] | Some l \<Rightarrow> l),
            aiModel = Some ''gpt-4o'',
            md_confidence = Some aiConfidence\<rparr>\<rparr>)"

text \<open>
  Lines 311 to 488: the guarded inference call, the fallback on any exception in it,
  and otherwise the assembled answer with the audit line for success.
\<close>

definition analyzeThermal ::
  "request \<Rightarrow> rate_store \<Rightarrow> auditLog \<Rightarrow> bool \<Rightarrow> image_metadata \<Rightarrow> outcome" where
  "analyzeThermal req store auditLog thermal md =
     (case visionCall req of
        Inl visionError \<Rightarrow>
          \<lparr>response = \<lparr>status = 200, body = Result fallbackResult\<rparr>,
           rateLimitStore = store, auditLines = [], visionCalls = 1\<rparr>
      | Inr visionResult \<Rightarrow>
          (let final = finalResponse req thermal md visionResult;
               auditLog' = auditLog
                 \<lparr>audit_status := success,
                  processingTime := Some (finishTime req - startTime req),
                  details := set_field ''results''
                    (JObj [(''severity'', JStr (severity final)),
                           (''hotspotCount'', JNum (real (totalHotspots (metadata final)))),
                           (''confidence'', JNum (if thermal then 85 / 100 else 0))])
                    (details auditLog)\<rparr>
           in \<lparr>response = \<lparr>status = 200, body = Result final\<rparr>,
               rateLimitStore = store, auditLines = [auditLog'], visionCalls = 1\<rparr>))"

text \<open>
  Lines 149 to 167: the \<^verbatim>\<open>try\<close> block around \<^verbatim>\<open>sharp(buffer).metadata()\<close>; \<open>Inl\<close>
  is the message its \<^verbatim>\<open>catch\<close> receives.
\<close>

definition checkedMetadata :: "request \<Rightarrow> string + image_metadata" where
  "checkedMetadata req =
     (case sharpMetadata req of
        Inl msg \<Rightarrow> Inl msg
      | Inr md \<Rightarrow>
          (case (meta_width md, meta_height md) of
             (Some w, Some h) \<Rightarrow>
               if w = 0 \<or> h = 0 then Inl ''Invalid image dimensions''
               else if w > MAX_IMAGE_DIMENSION \<or> h > MAX_IMAGE_DIMENSION
               then Inl ''Image dimensions exceed maximum allowed size of 8192px''
               else Inr md
           | _ \<Rightarrow> Inl ''Invalid image dimensions''))"

text \<open>
  A decoded submission: what the handler holds once the rate limiter, the validation
  and the decoding have let the request through (line 189).
\<close>

record submission =
  sub_store :: rate_store
  sub_auditLog :: auditLog
  sub_imageType :: string
  sub_demoMode :: bool
  sub_metadata :: image_metadata
  sub_raw :: raw_image

text \<open>
  Lines 137 to 189: reading the file under the timeout, the metadata check, the raw
  decoding. \<open>Inl\<close> is an early return of the handler.
\<close>

definition decodeStage ::
  "request \<Rightarrow> rate_store \<Rightarrow> auditLog \<Rightarrow> string \<Rightarrow> bool \<Rightarrow> outcome + submission" where
  "decodeStage req store auditLog imageType demoMode =
     (case arrayBuffer req of
        Inl msg \<Rightarrow> Inl (outerCatch req store auditLog msg)
      | Inr _ \<Rightarrow>
          (case checkedMetadata req of
             Inl errorMessage \<Rightarrow>
               Inl (reject400 req store
                      ''Invalid or corrupted image file. Please upload a valid image.'')
           | Inr md \<Rightarrow>
               (let auditLog' = auditLog\<lparr>details := set_field ''imageMetadata''
                      (JObj [(''width'', case meta_width md of None \<Rightarrow> JUndefined | Some w \<Rightarrow> JNum (real w)),
                             (''height'', case meta_height md of None \<Rightarrow> JUndefined | Some h \<Rightarrow> JNum (real h)),
                             (''format'', case meta_format md of None \<Rightarrow> JUndefined | Some f \<Rightarrow> JStr f),
                             (''channels'', case meta_channels md of None \<Rightarrow> JUndefined | Some c \<Rightarrow> JNum (real c))])
                      (details auditLog)\<rparr>
                in case sharpRaw req of
                     Inl msg \<Rightarrow> Inl (outerCatch req store auditLog' msg)
                   | Inr img \<Rightarrow>
                       Inr \<lparr>sub_store = store, sub_auditLog = auditLog',
                            sub_imageType = imageType, sub_demoMode = demoMode,
                            sub_metadata = md, sub_raw = img\<rparr>)))"

text \<open>
  Lines 89 to 135: parsing the form and the three checks on the file. Each rejection
  assigns \<^verbatim>\<open>auditLog.details\<close> and returns; the record is local to the call and is
  not printed on these paths, so the assignment leaves no trace in the outcome.
\<close>

definition validateStage :: "request \<Rightarrow> rate_store \<Rightarrow> auditLog \<Rightarrow> outcome + submission" where
  "validateStage req store auditLog =
     (case formData req of
        Inl msg \<Rightarrow> Inl (outerCatch req store auditLog msg)
      | Inr fd \<Rightarrow>
          (let imageType = str_or (imageTypeField fd) ''auto'';
               demoMode = (demoModeField fd = Some ''true'')
           in case image fd of
                None \<Rightarrow> Inl (reject400 req store ''Please provide a valid image file'')
              | Some file \<Rightarrow>
                  if file_size file > MAX_FILE_SIZE
                  then Inl (reject400 req store
                              ''File size exceeds maximum allowed size of 50MB'')
                  else if fileExtension (file_name file) = []
                          \<or> fileExtension (file_name file) \<notin> set ALLOWED_FORMATS
                  then Inl (reject400 req store
                              ''Invalid file format. Allowed formats: jpeg, jpg, png, tiff, bmp'')
                  else decodeStage req store
                         (auditLog\<lparr>details := set_field ''fileInfo''
                            (JObj [(''name'', JStr (file_name file)),
                                   (''size'', JNum (real (file_size file))),
                                   (''type'', JStr (file_type file)),
                                   (''imageType'', JStr imageType),
                                   (''demoMode'', JBool demoMode)])
                            (details auditLog)\<rparr>)
                         imageType demoMode))"

text \<open>
  Lines 45 to 189: the audit record is created, the rate limiter runs, and only then
  is the form parsed and validated.
\<close>

definition clientIp :: "request \<Rightarrow> string" where
  "clientIp req = str_or (forwardedFor req) ''unknown''"

definition intake :: "request \<Rightarrow> rate_store \<Rightarrow> outcome + submission" where
  "intake req store =
     (let auditLog = \<lparr>audit_requestId = requestId req, audit_timestamp = isoTime req,
                      audit_clientIp = clientIp req, audit_action = ''hotspot_analysis'',
                      audit_status = failure, details = [], processingTime = None\<rparr>
      in case rateLimitCheck store (clientIp req) (now req) of
           (Rejected retry, store') \<Rightarrow>
             Inl \<lparr>response = \<lparr>status = 429,
                    body = Failed \<lparr>error_text = ''Too many requests. Please try again later.'',
                      err_requestId = requestId req, retryAfter = Some retry,
                      support = None\<rparr>\<rparr>,
                  rateLimitStore = store', auditLines = [], visionCalls = 0\<rparr>
         | (Proceed, store') \<Rightarrow> validateStage req store' auditLog)"

text \<open>Lines 207 to 309: sampling, the verdict, the short-circuit; then the inference.\<close>

definition processSubmission :: "request \<Rightarrow> submission \<Rightarrow> outcome" where
  "processSubmission req sub =
     (let thermal = detectThermal (sub_demoMode sub) (sub_imageType sub)
                      (sample_image (sub_raw sub))
      in if \<not> thermal
         then \<lparr>response = \<lparr>status = 200, body = Result nonThermalResult\<rparr>,
               rateLimitStore = sub_store sub, auditLines = [], visionCalls = 0\<rparr>
         else analyzeThermal req (sub_store sub) (sub_auditLog sub) thermal (sub_metadata sub))"

definition POST :: "request \<Rightarrow> rate_store \<Rightarrow> outcome" where
  "POST req store =
     (case intake req store of
        Inl early \<Rightarrow> early
      | Inr sub \<Rightarrow> processSubmission req sub)"

text \<open>Serving requests one after the other, each on the map the previous one left.\<close>

fun serve :: "request list \<Rightarrow> rate_store \<Rightarrow> rate_store" where
  "serve [] store = store"
| "serve (req # reqs) store = serve reqs (rateLimitStore (POST req store))"

text \<open>The \<^verbatim>\<open>retryAfter\<close> field of a response body, when it has one.\<close>

definition retryAfterOf :: "response \<Rightarrow> int option" where
  "retryAfterOf r = (case body r of Failed b \<Rightarrow> retryAfter b | Result _ \<Rightarrow> None)"

text \<open>The top-level \<^verbatim>\<open>confidence\<close> of a response body, when it has one.\<close>

definition confidenceOf :: "response \<Rightarrow> real option" where
  "confidenceOf r = (case body r of Result a \<Rightarrow> Some (confidence a) | Failed _ \<Rightarrow> None)"

text \<open>The \<^verbatim>\<open>(x, y)\<close> pairs of the hotspots of a response body.\<close>

definition coordinates :: "response \<Rightarrow> (int \<times> int) list" where
  "coordinates r =
     (case body r of
        Result a \<Rightarrow> map (\<lambda>h. (hs_x h, hs_y h)) (hotspots a)
      | Failed _ \<Rightarrow> [])"

subsection \<open>The specification's wording of the classifier and of the confidence rule\<close>

text \<open>
  Section 4.3, steps 6 to 8, of the specification, written out from its words, to be
  compared with \<^const>\<open>detectThermal\<close>.
\<close>

definition spec_thermalColorPattern :: "nat \<Rightarrow> jsnum \<Rightarrow> real \<Rightarrow> real \<Rightarrow> bool" where
  "spec_thermalColorPattern uniq avg rb bb =
     (let highVariance = js_gt avg 50;
          moderateColors = (50 < uniq \<and> uniq < 300);
          colorGradient = (uniq > 100 \<and> js_gt avg 100);
          thermalBias = (rb > 3 / 10 \<or> bb > 3 / 10)
      in (thermalBias \<and> moderateColors) \<or> (colorGradient \<and> highVariance)
         \<or> (uniq < 50 \<and> js_lt avg 10) \<or> (js_gt avg 150 \<and> uniq > 100))"

definition spec_classification ::
  "bool \<Rightarrow> string \<Rightarrow> nat \<Rightarrow> jsnum \<Rightarrow> real \<Rightarrow> real \<Rightarrow> bool" where
  "spec_classification demoMode imageType uniq avg rb bb =
     (demoMode
      \<or> (imageType = ''thermal'' \<and> spec_thermalColorPattern uniq avg rb bb)
      \<or> (imageType \<noteq> ''visual'' \<and> spec_thermalColorPattern uniq avg rb bb))"

text \<open>
  Section 4.4 of the specification on the confidence: a value above 1 is divided by
  100, any other value is left as it is, and 0.85 stands in when there is none.
\<close>

definition spec_confidence :: "real option \<Rightarrow> real" where
  "spec_confidence c =
     (case c of None \<Rightarrow> 85 / 100 | Some v \<Rightarrow> if v > 1 then v / 100 else v)"

subsection \<open>Sample inputs\<close>

text \<open>A one-pixel black image with three channels.\<close>

definition black_pixel :: raw_image where
  "black_pixel = \<lparr>pixelArray = [0, 0, 0], info_width = 1, info_height = 1, info_channels = 3\<rparr>"

definition one_by_one :: image_metadata where
  "one_by_one = \<lparr>meta_width = Some 1, meta_height = Some 1, meta_format = Some ''png'',
                  meta_channels = Some 3\<rparr>"

text \<open>
  A well-formed upload of that image from client \<^verbatim>\<open>10.0.0.1\<close> at time 1000, with the
  given \<^verbatim>\<open>imageType\<close> field and inference outcome.
\<close>

definition upload_request :: "string option \<Rightarrow> (string + vision_result) \<Rightarrow> request" where
  "upload_request imageType vision =
     \<lparr>startTime = 1000, requestId = ''req-1'', isoTime = ''2025-01-01T00:00:00.000Z'',
      forwardedFor = Some ''10.0.0.1'', now = 1000,
      formData = Inr \<lparr>image = Some \<lparr>file_name = ''panel.PNG'', file_size = 2048,
                                      file_type = ''image/png''\<rparr>,
                      imageTypeField = imageType, demoModeField = None\<rparr>,
      arrayBuffer = Inr (), sharpMetadata = Inr one_by_one, sharpRaw = Inr black_pixel,
      visionCall = vision, responseTime = 1500, finishTime = 1600\<rparr>"

text \<open>The same client sending a form with no \<^verbatim>\<open>image\<close> field.\<close>

definition missing_file_request :: request where
  "missing_file_request =
     \<lparr>startTime = 1000, requestId = ''req-2'', isoTime = ''2025-01-01T00:00:00.000Z'',
      forwardedFor = Some ''10.0.0.1'', now = 1000,
      formData = Inr \<lparr>image = None, imageTypeField = None, demoModeField = None\<rparr>,
      arrayBuffer = Inr (), sharpMetadata = Inr one_by_one, sharpRaw = Inr black_pixel,
      visionCall = Inl ''not reached'', responseTime = 1500, finishTime = 1600\<rparr>"

text \<open>An inference result with the given hotspots and confidence and nothing else.\<close>

definition vision_reply :: "raw_hotspot list \<Rightarrow> real option \<Rightarrow> vision_result" where
  "vision_reply hs c =
     \<lparr>v_hotspots = Some hs, v_severity = None, v_maxTemperature = None, v_analysis = None,
      v_recommendations = None, v_confidence = c\<rparr>"

definition spot :: "real \<Rightarrow> real \<Rightarrow> raw_hotspot" where
  "spot px py = \<lparr>in_x = Some px, in_y = Some py, in_radius = None, in_intensity = None,
                  in_area = None, in_description = None\<rparr>"

section \<open>Properties\<close>

subsection \<open>The rate-limit map after a request\<close>

lemma outerCatch_store: "rateLimitStore (outerCatch req st a m) = st"
  by (simp add: outerCatch_def Let_def)

lemma reject400_store: "rateLimitStore (reject400 req st m) = st"
  by (simp add: reject400_def)

lemma decodeStage_early_store:
  "decodeStage req st a it dm = Inl out \<Longrightarrow> rateLimitStore out = st"
  by (auto simp: decodeStage_def Let_def outerCatch_store reject400_store split: sum.splits)

lemma decodeStage_sub_store:
  "decodeStage req st a it dm = Inr sub \<Longrightarrow> sub_store sub = st"
  by (auto simp: decodeStage_def Let_def split: sum.splits)

lemma validateStage_early_store:
  "validateStage req st a = Inl out \<Longrightarrow> rateLimitStore out = st"
  by (auto simp: validateStage_def Let_def outerCatch_store reject400_store
      dest: decodeStage_early_store split: sum.splits option.splits if_splits)

lemma validateStage_sub_store:
  "validateStage req st a = Inr sub \<Longrightarrow> sub_store sub = st"
  by (auto simp: validateStage_def Let_def dest: decodeStage_sub_store
      split: sum.splits option.splits if_splits)

lemma intake_early_store:
  "intake req st = Inl out \<Longrightarrow>
     rateLimitStore out = snd (rateLimitCheck st (clientIp req) (now req))"
  by (auto simp: intake_def Let_def dest: validateStage_early_store
      split: prod.splits rate_outcome.splits)

lemma intake_sub_store:
  "intake req st = Inr sub \<Longrightarrow>
     sub_store sub = snd (rateLimitCheck st (clientIp req) (now req))"
  by (auto simp: intake_def Let_def dest: validateStage_sub_store
      split: prod.splits rate_outcome.splits)

lemma analyzeThermal_store: "rateLimitStore (analyzeThermal req st a th md) = st"
  by (simp add: analyzeThermal_def Let_def split: sum.splits)

lemma processSubmission_store: "rateLimitStore (processSubmission req sub) = sub_store sub"
  by (simp add: processSubmission_def Let_def analyzeThermal_store)

lemma POST_store:
  "rateLimitStore (POST req st) = snd (rateLimitCheck st (clientIp req) (now req))"
  by (cases "intake req st")
     (simp_all add: POST_def processSubmission_store intake_early_store intake_sub_store)

subsection \<open>Which requests are answered 429\<close>

lemma validateStage_not_429:
  "validateStage req st a = Inl out \<Longrightarrow> status (response out) \<noteq> 429"
  by (auto simp: validateStage_def decodeStage_def Let_def outerCatch_def reject400_def
      split: sum.splits option.splits if_splits)

lemma processSubmission_200: "status (response (processSubmission req sub)) = 200"
  by (simp add: processSubmission_def analyzeThermal_def Let_def split: sum.splits)

lemma POST_429_iff:
  "status (response (POST req st)) = 429
     \<longleftrightarrow> fst (rateLimitCheck st (clientIp req) (now req)) \<noteq> Proceed"
  by (cases "intake req st")
     (auto simp: POST_def intake_def Let_def processSubmission_200
       dest: validateStage_not_429 split: prod.splits rate_outcome.splits)

lemma POST_rejected:
  assumes "rateLimitCheck st (clientIp req) (now req) = (Rejected r, st')"
  shows "response (POST req st) =
           \<lparr>status = 429,
            body = Failed \<lparr>error_text = ''Too many requests. Please try again later.'',
                     err_requestId = requestId req, retryAfter = Some r, support = None\<rparr>\<rparr>"
  using assms by (simp add: POST_def intake_def)

subsection \<open>One step and many steps of the rate limiter\<close>

lemma rate_reject:
  assumes "st k = Some e" "t < resetTime e" "RATE_LIMIT \<le> count e"
  shows "rateLimitCheck st k t = (Rejected \<lceil>real_of_int (resetTime e - t) / 1000\<rceil>, st)"
    and "0 < \<lceil>real_of_int (resetTime e - t) / 1000\<rceil>"
  using assms by (simp_all add: rateLimitCheck_def)

lemma rate_reset:
  assumes "st k = None \<or> (\<exists>e. st k = Some e \<and> resetTime e \<le> t)"
  shows "rateLimitCheck st k t
           = (Proceed, st(k \<mapsto> \<lparr>count = 1, resetTime = t + RATE_WINDOW\<rparr>))"
  using assms by (auto simp: rateLimitCheck_def)

lemma rate_other: "k' \<noteq> k \<Longrightarrow> snd (rateLimitCheck st k' t) k = st k"
  by (auto simp: rateLimitCheck_def split: option.splits)

lemma rate_count:
  assumes "st k = Some e" "t < resetTime e" "count e < RATE_LIMIT"
  shows "rateLimitCheck st k t = (Proceed, st(k \<mapsto> e\<lparr>count := count e + 1\<rparr>))"
  using assms by (simp add: rateLimitCheck_def)

text \<open>
  Requests of client \<open>k\<close> inside its window are counted one by one, whatever other
  clients send in between, as long as the cap is not passed.
\<close>

lemma serve_counts:
  assumes "st k = Some \<lparr>count = c, resetTime = T\<rparr>"
    and "\<forall>r \<in> set rs. clientIp r = k \<longrightarrow> now r < T"
    and "c + length (filter (\<lambda>r. clientIp r = k) rs) \<le> RATE_LIMIT"
  shows "serve rs st k
           = Some \<lparr>count = c + length (filter (\<lambda>r. clientIp r = k) rs), resetTime = T\<rparr>"
  using assms
proof (induction rs arbitrary: st c)
  case Nil
  then show ?case by simp
next
  case (Cons r rs)
  show ?case
  proof (cases "clientIp r = k")
    case True
    from Cons.prems True have lt: "c < RATE_LIMIT" and t: "now r < T" by auto
    have "rateLimitStore (POST r st) k = Some \<lparr>count = c + 1, resetTime = T\<rparr>"
      using rate_count [of st k "\<lparr>count = c, resetTime = T\<rparr>" "now r"] Cons.prems(1) lt t True
      by (simp add: POST_store)
    from Cons.IH [of "rateLimitStore (POST r st)" "c + 1", OF this] Cons.prems True
    show ?thesis by simp
  next
    case False
    have "rateLimitStore (POST r st) k = Some \<lparr>count = c, resetTime = T\<rparr>"
      using rate_other [of "clientIp r" k st "now r"] False Cons.prems(1)
      by (simp add: POST_store)
    from Cons.IH [of "rateLimitStore (POST r st)" c, OF this] Cons.prems False
    show ?thesis by simp
  qed
qed

lemma serve_full_window:
  assumes fresh: "st (clientIp first) = None
                  \<or> (\<exists>e. st (clientIp first) = Some e \<and> resetTime e \<le> now first)"
    and n: "length (filter (\<lambda>r. clientIp r = clientIp first) rest) = RATE_LIMIT - 1"
    and inside: "\<forall>r \<in> set rest. clientIp r = clientIp first \<longrightarrow> now r < now first + RATE_WINDOW"
  shows "serve (first # rest) st (clientIp first)
           = Some \<lparr>count = RATE_LIMIT, resetTime = now first + RATE_WINDOW\<rparr>"
proof -
  have "rateLimitStore (POST first st) (clientIp first)
          = Some \<lparr>count = 1, resetTime = now first + RATE_WINDOW\<rparr>"
    using rate_reset [of st "clientIp first" "now first", OF fresh] by (simp add: POST_store)
  from serve_counts [of "rateLimitStore (POST first st)" "clientIp first" 1
      "now first + RATE_WINDOW" rest, OF this inside] n
  show ?thesis
    by (simp add: RATE_LIMIT_def)
qed

lemma reject_after_full_window:
  assumes "st k = Some \<lparr>count = RATE_LIMIT, resetTime = T\<rparr>" "clientIp req = k" "now req < T"
  shows "status (response (POST req st)) = 429
         \<and> (\<exists>r. retryAfterOf (response (POST req st)) = Some r \<and> 0 < r
                \<and> r = \<lceil>real_of_int (T - now req) / 1000\<rceil>)"
  using rate_reject [of st k "\<lparr>count = RATE_LIMIT, resetTime = T\<rparr>" "now req"] assms
  by (simp add: POST_rejected [of st req _ st] retryAfterOf_def)

text \<open>
  Claim C6. For every client key: (1) a request that finds the client's entry with an
  active window and a count of at least \<open>RATE_LIMIT\<close> is answered 429 with
  \<open>retryAfter\<close> the seconds until \<open>resetTime\<close>, rounded up, which is strictly
  positive; (2) after \<open>RATE_LIMIT\<close> requests of one client inside one window (the
  first one creating or resetting the entry, other clients' requests in between
  allowed) the count is \<open>RATE_LIMIT\<close> and the client's next request inside the window
  is answered 429 with a positive \<open>retryAfter\<close>; (3) a request that arrives when the
  window has elapsed (\<open>now \<ge> resetTime\<close>) resets the entry to count 1 with
  \<open>resetTime = now + RATE_WINDOW\<close> and is not answered 429.
\<close>

theorem rate_limit_window:
  "(store (clientIp req) = Some e \<and> now req < resetTime e \<and> RATE_LIMIT \<le> count e \<longrightarrow>
      response (POST req store) =
        \<lparr>status = 429,
         body = Failed \<lparr>error_text = ''Too many requests. Please try again later.'',
                  err_requestId = requestId req,
                  retryAfter = Some \<lceil>real_of_int (resetTime e - now req) / 1000\<rceil>,
                  support = None\<rparr>\<rparr>
      \<and> 0 < \<lceil>real_of_int (resetTime e - now req) / 1000\<rceil>)
   \<and> ((store0 (clientIp first) = None
         \<or> (\<exists>e0. store0 (clientIp first) = Some e0 \<and> resetTime e0 \<le> now first))
       \<and> length (filter (\<lambda>r. clientIp r = clientIp first) rest) = RATE_LIMIT - 1
       \<and> (\<forall>r \<in> set rest. clientIp r = clientIp first \<longrightarrow> now r < now first + RATE_WINDOW)
       \<and> clientIp nxt = clientIp first \<and> now nxt < now first + RATE_WINDOW \<longrightarrow>
      serve (first # rest) store0 (clientIp first)
        = Some \<lparr>count = RATE_LIMIT, resetTime = now first + RATE_WINDOW\<rparr>
      \<and> status (response (POST nxt (serve (first # rest) store0))) = 429
      \<and> (\<exists>r. retryAfterOf (response (POST nxt (serve (first # rest) store0))) = Some r
              \<and> 0 < r))
   \<and> (store (clientIp req) = Some e \<and> resetTime e \<le> now req \<longrightarrow>
      rateLimitStore (POST req store) (clientIp req)
        = Some \<lparr>count = 1, resetTime = now req + RATE_WINDOW\<rparr>
      \<and> status (response (POST req store)) \<noteq> 429)"
proof (intro conjI impI)
  assume h: "store (clientIp req) = Some e \<and> now req < resetTime e \<and> RATE_LIMIT \<le> count e"
  then have r: "rateLimitCheck store (clientIp req) (now req)
                  = (Rejected \<lceil>real_of_int (resetTime e - now req) / 1000\<rceil>, store)"
    by (simp add: rate_reject(1))
  show "response (POST req store) =
        \<lparr>status = 429,
         body = Failed \<lparr>error_text = ''Too many requests. Please try again later.'',
                  err_requestId = requestId req,
                  retryAfter = Some \<lceil>real_of_int (resetTime e - now req) / 1000\<rceil>,
                  support = None\<rparr>\<rparr>"
    by (rule POST_rejected [OF r])
  from h show "0 < \<lceil>real_of_int (resetTime e - now req) / 1000\<rceil>"
    by simp
next
  assume h: "(store0 (clientIp first) = None
         \<or> (\<exists>e0. store0 (clientIp first) = Some e0 \<and> resetTime e0 \<le> now first))
       \<and> length (filter (\<lambda>r. clientIp r = clientIp first) rest) = RATE_LIMIT - 1
       \<and> (\<forall>r \<in> set rest. clientIp r = clientIp first \<longrightarrow> now r < now first + RATE_WINDOW)
       \<and> clientIp nxt = clientIp first \<and> now nxt < now first + RATE_WINDOW"
  then have full: "serve (first # rest) store0 (clientIp first)
        = Some \<lparr>count = RATE_LIMIT, resetTime = now first + RATE_WINDOW\<rparr>"
    by (intro serve_full_window) simp_all
  then show "serve (first # rest) store0 (clientIp first)
        = Some \<lparr>count = RATE_LIMIT, resetTime = now first + RATE_WINDOW\<rparr>" .
  from h have "clientIp nxt = clientIp first" "now nxt < now first + RATE_WINDOW"
    by simp_all
  from reject_after_full_window [of "serve (first # rest) store0" "clientIp first"
      "now first + RATE_WINDOW" nxt, OF full this]
  show "status (response (POST nxt (serve (first # rest) store0))) = 429"
    and "\<exists>r. retryAfterOf (response (POST nxt (serve (first # rest) store0))) = Some r \<and> 0 < r"
    by blast+
next
  assume h: "store (clientIp req) = Some e \<and> resetTime e \<le> now req"
  then have r: "rateLimitCheck store (clientIp req) (now req)
          = (Proceed, store(clientIp req \<mapsto> \<lparr>count = 1, resetTime = now req + RATE_WINDOW\<rparr>))"
    by (intro rate_reset) blast
  then show "rateLimitStore (POST req store) (clientIp req)
        = Some \<lparr>count = 1, resetTime = now req + RATE_WINDOW\<rparr>"
    by (simp add: POST_store)
  from r show "status (response (POST req store)) \<noteq> 429"
    by (simp add: POST_429_iff)
qed

lemma upload_request_client: "clientIp (upload_request it v) = ''10.0.0.1''"
  by (simp add: clientIp_def upload_request_def str_or_def)

lemma upload_request_now: "now (upload_request it v) = 1000"
  by (simp add: upload_request_def)

theorem rate_limit_window_witness:
  "retryAfterOf (response (POST (upload_request None (Inl ''down''))
       [''10.0.0.1'' \<mapsto> \<lparr>count = 100, resetTime = 5000\<rparr>])) = Some 4
   \<and> status (response (POST (upload_request None (Inl ''down''))
        (serve (upload_request None (Inl ''down'')
                  # replicate 99 (upload_request None (Inl ''down''))) Map.empty))) = 429
   \<and> rateLimitStore (POST (upload_request None (Inl ''down''))
        [''10.0.0.1'' \<mapsto> \<lparr>count = 100, resetTime = 500\<rparr>]) ''10.0.0.1''
       = Some \<lparr>count = 1, resetTime = 3601000\<rparr>"
proof (intro conjI)
  let ?w = "upload_request None (Inl ''down'')"
  show "retryAfterOf (response (POST ?w [''10.0.0.1'' \<mapsto> \<lparr>count = 100, resetTime = 5000\<rparr>]))
          = Some 4"
    using rate_limit_window [where req = ?w and e = "\<lparr>count = 100, resetTime = 5000\<rparr>"
        and store = "[''10.0.0.1'' \<mapsto> \<lparr>count = 100, resetTime = 5000\<rparr>]"]
    by (simp add: upload_request_client upload_request_now RATE_LIMIT_def retryAfterOf_def)
  show "status (response (POST ?w (serve (?w # replicate 99 ?w) Map.empty))) = 429"
    using rate_limit_window [where first = ?w and rest = "replicate 99 ?w" and nxt = ?w
        and ?store0.0 = Map.empty]
    by (simp add: upload_request_client upload_request_now RATE_LIMIT_def RATE_WINDOW_def)
  show "rateLimitStore (POST ?w [''10.0.0.1'' \<mapsto> \<lparr>count = 100, resetTime = 500\<rparr>]) ''10.0.0.1''
          = Some \<lparr>count = 1, resetTime = 3601000\<rparr>"
    using rate_limit_window [where req = ?w and e = "\<lparr>count = 100, resetTime = 500\<rparr>"
        and store = "[''10.0.0.1'' \<mapsto> \<lparr>count = 100, resetTime = 500\<rparr>]"]
    by (simp add: upload_request_client upload_request_now RATE_WINDOW_def)
qed

subsection \<open>The detector\<close>

lemma spec_pattern_eq:
  "spec_thermalColorPattern uniq avg rb bb = thermalColorPattern uniq avg rb bb"
  by (simp add: spec_thermalColorPattern_def thermalColorPattern_def hasThermalBias_def
      hasModerateColors_def hasColorGradient_def hasHighColorVariance_def)

lemma POST_submission:
  "intake req store = Inr sub \<Longrightarrow> POST req store = processSubmission req sub"
  by (simp add: POST_def)

lemma analyzeThermal_calls: "visionCalls (analyzeThermal req st a th md) = 1"
  by (simp add: analyzeThermal_def Let_def split: sum.splits)

lemma processSubmission_calls:
  "visionCalls (processSubmission req sub)
     = (if detectThermal (sub_demoMode sub) (sub_imageType sub) (sample_image (sub_raw sub))
        then 1 else 0)"
  by (simp add: processSubmission_def Let_def analyzeThermal_calls)

lemma decodeStage_hints:
  "decodeStage req st a it dm = Inr sub \<Longrightarrow> sub_imageType sub = it \<and> sub_demoMode sub = dm"
  by (auto simp: decodeStage_def Let_def split: sum.splits)

lemma validateStage_hints:
  "validateStage req st a = Inr sub \<Longrightarrow>
     \<exists>fd. formData req = Inr fd
        \<and> sub_imageType sub = str_or (imageTypeField fd) ''auto''
        \<and> sub_demoMode sub = (demoModeField fd = Some ''true'')"
  by (auto simp: validateStage_def Let_def dest: decodeStage_hints
      split: sum.splits option.splits if_splits)

lemma intake_hints:
  "intake req st = Inr sub \<Longrightarrow>
     \<exists>fd. formData req = Inr fd
        \<and> sub_imageType sub = str_or (imageTypeField fd) ''auto''
        \<and> sub_demoMode sub = (demoModeField fd = Some ''true'')"
  by (auto simp: intake_def Let_def dest: validateStage_hints
      split: prod.splits rate_outcome.splits)

lemma sample_black_pixel:
  "sample_image black_pixel
     = \<lparr>colorVariance = Num 0, totalPixels = 1,
        colorHistogram = [((Some 0, Some 0, Some 0), 1)]\<rparr>"
  by code_simp

lemma black_pixel_pattern: "detectPattern (sample_image black_pixel)"
  by (simp add: sample_black_pixel detectPattern_def thermalColorPattern_def
      uniqueColors_def avgColorVariance_def)

lemma extension_of_sample: "fileExtension ''panel.PNG'' = ''png''"
  by code_simp

lemma intake_upload:
  "intake (upload_request it v) Map.empty =
     Inr \<lparr>sub_store = [''10.0.0.1'' \<mapsto> \<lparr>count = 1, resetTime = 3601000\<rparr>],
          sub_auditLog =
            \<lparr>audit_requestId = ''req-1'', audit_timestamp = ''2025-01-01T00:00:00.000Z'',
             audit_clientIp = ''10.0.0.1'', audit_action = ''hotspot_analysis'',
             audit_status = failure,
             details =
               [(''fileInfo'', JObj [(''name'', JStr ''panel.PNG''), (''size'', JNum 2048),
                   (''type'', JStr ''image/png''), (''imageType'', JStr (str_or it ''auto'')),
                   (''demoMode'', JBool False)]),
                (''imageMetadata'', JObj [(''width'', JNum 1), (''height'', JNum 1),
                   (''format'', JStr ''png''), (''channels'', JNum 3)])],
             processingTime = None\<rparr>,
          sub_imageType = str_or it ''auto'', sub_demoMode = False,
          sub_metadata = one_by_one, sub_raw = black_pixel\<rparr>"
  by (simp add: intake_def clientIp_def upload_request_def rateLimitCheck_def str_or_def
      validateStage_def MAX_FILE_SIZE_def RATE_WINDOW_def extension_of_sample Let_def
      ALLOWED_FORMATS_def decodeStage_def checkedMetadata_def MAX_IMAGE_DIMENSION_def
      set_field_def one_by_one_def)

text \<open>
  Claim C2. The handler's verdict on a decoded submission is the specification's
  formula applied to the four derived features (\<open>uniqueColors\<close>, \<open>avgColorVariance\<close>,
  \<open>redBias\<close>, \<open>blueBias\<close>) and the two hints: true when \<open>demoMode\<close> is set, or the
  declared type is \<open>thermal\<close> and the heuristic agrees, or the declared type is not
  \<open>visual\<close> and the heuristic agrees, the heuristic being the four-way disjunction
  with the stated thresholds. The inference service is called exactly when that
  formula is true, the hints are the form's \<open>imageType\<close> (default \<open>auto\<close>) and
  \<open>demoMode = 'true'\<close>, \<open>demoMode\<close> forces the verdict, and with \<open>visual\<close> declared
  the verdict is \<open>demoMode\<close> alone.
\<close>

theorem thermal_classification_formula:
  assumes "intake req store = Inr sub"
  shows "detectThermal (sub_demoMode sub) (sub_imageType sub) (sample_image (sub_raw sub))
           = spec_classification (sub_demoMode sub) (sub_imageType sub)
               (uniqueColors (sample_image (sub_raw sub)))
               (avgColorVariance (sample_image (sub_raw sub)))
               (redBias (sample_image (sub_raw sub)))
               (blueBias (sample_image (sub_raw sub)))
     \<and> (visionCalls (POST req store) = 1)
           = spec_classification (sub_demoMode sub) (sub_imageType sub)
               (uniqueColors (sample_image (sub_raw sub)))
               (avgColorVariance (sample_image (sub_raw sub)))
               (redBias (sample_image (sub_raw sub)))
               (blueBias (sample_image (sub_raw sub)))
     \<and> (\<exists>fd. formData req = Inr fd
            \<and> sub_imageType sub = str_or (imageTypeField fd) ''auto''
            \<and> sub_demoMode sub = (demoModeField fd = Some ''true''))
     \<and> detectThermal True imageType s
     \<and> detectThermal demoMode ''visual'' s = demoMode"
proof -
  have eq: "detectThermal (sub_demoMode sub) (sub_imageType sub) (sample_image (sub_raw sub))
           = spec_classification (sub_demoMode sub) (sub_imageType sub)
               (uniqueColors (sample_image (sub_raw sub)))
               (avgColorVariance (sample_image (sub_raw sub)))
               (redBias (sample_image (sub_raw sub)))
               (blueBias (sample_image (sub_raw sub)))"
    by (simp add: detectThermal_def detectPattern_def isThermalImage_def
        spec_classification_def spec_pattern_eq)
  have calls: "(visionCalls (POST req store) = 1)
           = spec_classification (sub_demoMode sub) (sub_imageType sub)
               (uniqueColors (sample_image (sub_raw sub)))
               (avgColorVariance (sample_image (sub_raw sub)))
               (redBias (sample_image (sub_raw sub)))
               (blueBias (sample_image (sub_raw sub)))"
    unfolding eq [symmetric]
    by (simp add: POST_submission [OF assms] processSubmission_calls)
  have forced: "detectThermal True imageType s"
    by (simp add: detectThermal_def isThermalImage_def)
  have visual: "detectThermal demoMode ''visual'' s = demoMode"
    by (simp add: detectThermal_def isThermalImage_def)
  from eq calls intake_hints [OF assms] forced visual show ?thesis
    by blast
qed

theorem thermal_classification_formula_witness:
  "\<not> isl (intake (upload_request (Some ''thermal'') (Inl ''down'')) Map.empty)
   \<and> visionCalls (POST (upload_request (Some ''thermal'') (Inl ''down'')) Map.empty) = 1
   \<and> spec_classification False ''thermal'' 1 (Num 0) 0 0"
proof -
  let ?w = "upload_request (Some ''thermal'') (Inl ''down'')"
  have f: "uniqueColors (sample_image black_pixel) = 1"
    "avgColorVariance (sample_image black_pixel) = Num 0"
    "redBias (sample_image black_pixel) = 0" "blueBias (sample_image black_pixel) = 0"
    by (simp_all add: sample_black_pixel uniqueColors_def avgColorVariance_def redBias_def
        blueBias_def)
  have t: "detectThermal False ''thermal'' (sample_image black_pixel)"
    by (simp add: detectThermal_def isThermalImage_def black_pixel_pattern)
  from thermal_classification_formula [OF intake_upload [of "Some ''thermal''" "Inl ''down''"]]
  show ?thesis
    by (simp add: intake_upload str_or_def f t)
qed

subsection \<open>The sampling loops\<close>

lemma sample_cols_invariant:
  assumes "P s"
    and "\<And>x s. x < info_width img \<Longrightarrow> P s \<Longrightarrow> P (sample_pixel img y x s)"
  shows "P (sample_cols img y x s)"
  using assms
proof (induction img y x s rule: sample_cols.induct)
  case (1 img y x s)
  show ?case
  proof (cases "x < info_width img")
    case True
    then have "P (sample_pixel img y x s)"
      using "1.prems" by simp
    then have "P (sample_cols img y (x + 20) (sample_pixel img y x s))"
      using "1.IH" [OF True] "1.prems"(2) by simp
    with True show ?thesis
      by (subst sample_cols.simps) simp
  next
    case False
    with "1.prems"(1) show ?thesis
      by (subst sample_cols.simps) simp
  qed
qed

lemma sample_rows_invariant:
  assumes "P s"
    and "\<And>y s. y < info_height img \<Longrightarrow> P s \<Longrightarrow> P (sample_cols img y 0 s)"
  shows "P (sample_rows img y s)"
  using assms
proof (induction img y s rule: sample_rows.induct)
  case (1 img y s)
  show ?case
  proof (cases "y < info_height img")
    case True
    then have "P (sample_cols img y 0 s)"
      using "1.prems" by simp
    then have "P (sample_rows img (y + 20) (sample_cols img y 0 s))"
      using "1.IH" [OF True] "1.prems"(2) by simp
    with True show ?thesis
      by (subst sample_rows.simps) simp
  next
    case False
    with "1.prems"(1) show ?thesis
      by (subst sample_rows.simps) simp
  qed
qed

lemma sample_image_invariant:
  fixes P :: "sampling \<Rightarrow> bool"
  assumes "P \<lparr>colorVariance = Num 0, totalPixels = 0, colorHistogram = []\<rparr>"
    and "\<And>x y s. x < info_width img \<Longrightarrow> y < info_height img \<Longrightarrow> P s
           \<Longrightarrow> P (sample_pixel img y x s)"
  shows "P (sample_image img)"
  unfolding sample_image_def
proof (rule sample_rows_invariant [where P = P])
  show "P \<lparr>colorVariance = Num 0, totalPixels = 0, colorHistogram = []\<rparr>"
    by (rule assms(1))
next
  fix y s
  assume y: "y < info_height img" and s: "P s"
  show "P (sample_cols img y 0 s)"
  proof (rule sample_cols_invariant [where P = P])
    show "P s" by (rule s)
  next
    fix x s'
    assume "x < info_width img" "P s'"
    then show "P (sample_pixel img y x s')"
      using y by (intro assms(2))
  qed
qed

lemma hist_incr_nonempty: "hist_incr k h \<noteq> []"
  by (simp add: hist_incr_def split: option.splits) (cases h; simp)

text \<open>
  With no sample the accumulator is zero, so the quotient in \<^const>\<open>avgColorVariance\<close>
  is \<^verbatim>\<open>0 / 0\<close>; with a sample the histogram is not empty, so the quotients in
  \<^const>\<open>redBias\<close> and \<^const>\<open>blueBias\<close> have a positive denominator.
\<close>

lemma sample_image_counts:
  "(totalPixels (sample_image img) = 0 \<longrightarrow> colorVariance (sample_image img) = Num 0)
   \<and> (totalPixels (sample_image img) > 0 \<longrightarrow> colorHistogram (sample_image img) \<noteq> [])"
  by (rule sample_image_invariant) (simp_all add: sample_pixel_def Let_def hist_incr_nonempty)

text \<open>
  An image whose sampled pixels are grey (three equal channels, read inside the
  buffer) leaves the accumulator at zero; an all-black image with at least three
  channels is one.
\<close>

lemma deviation_gray: "deviation (Some c) (Some c) (Some c) = Num 0"
  by simp

lemma gray_image_zero_variance:
  assumes "\<And>x y. x < info_width img \<Longrightarrow> y < info_height img \<Longrightarrow>
     \<exists>c. at_index (pixelArray img) ((y * info_width img + x) * info_channels img) = Some c
        \<and> at_index (pixelArray img) ((y * info_width img + x) * info_channels img + 1) = Some c
        \<and> at_index (pixelArray img) ((y * info_width img + x) * info_channels img + 2) = Some c"
  shows "colorVariance (sample_image img) = Num 0"
proof (rule sample_image_invariant)
  show "colorVariance \<lparr>colorVariance = Num 0, totalPixels = 0, colorHistogram = []\<rparr> = Num 0"
    by simp
next
  fix x y and s :: sampling
  assume "x < info_width img" "y < info_height img" and s: "colorVariance s = Num 0"
  from assms [OF this(1,2)] obtain c where
    "at_index (pixelArray img) ((y * info_width img + x) * info_channels img) = Some c"
    "at_index (pixelArray img) ((y * info_width img + x) * info_channels img + 1) = Some c"
    "at_index (pixelArray img) ((y * info_width img + x) * info_channels img + 2) = Some c"
    by blast
  with s show "colorVariance (sample_pixel img y x s) = Num 0"
    by (simp add: sample_pixel_def Let_def)
qed

lemma pixel_index_bound:
  fixes x y w h c :: nat
  assumes "x < w" "y < h" "3 \<le> c"
  shows "y * w + x < w * h" and "(y * w + x) * c + 2 < w * h * c"
proof -
  from assms(2) have "Suc y * w \<le> h * w"
    by (intro mult_le_mono1) simp
  with assms(1) have "y * w + x + 1 \<le> w * h"
    by (simp add: mult.commute)
  then have "(y * w + x + 1) * c \<le> w * h * c"
    by (rule mult_le_mono1)
  with assms(3) show "(y * w + x) * c + 2 < w * h * c"
    by (simp add: add_mult_distrib)
  from \<open>y * w + x + 1 \<le> w * h\<close> show "y * w + x < w * h"
    by simp
qed

lemma all_black_zero_variance:
  assumes "3 \<le> c"
  shows "colorVariance (sample_image \<lparr>pixelArray = replicate (w * h * c) 0, info_width = w,
            info_height = h, info_channels = c\<rparr>) = Num 0"
proof (rule gray_image_zero_variance)
  fix x y
  let ?img = "\<lparr>pixelArray = replicate (w * h * c) 0, info_width = w,
            info_height = h, info_channels = c\<rparr>"
  assume "x < info_width ?img" "y < info_height ?img"
  then have "(y * w + x) * c + 2 < w * h * c" "y * w + x < w * h" "0 < c"
    using pixel_index_bound [of x w y h c] assms by simp_all
  then show "\<exists>k. at_index (pixelArray ?img) ((y * info_width ?img + x) * info_channels ?img) = Some k
        \<and> at_index (pixelArray ?img) ((y * info_width ?img + x) * info_channels ?img + 1) = Some k
        \<and> at_index (pixelArray ?img) ((y * info_width ?img + x) * info_channels ?img + 2) = Some k"
    by (simp add: at_index_def)
qed

text \<open>
  With at most 50 colour buckets (a single-colour image has one) only the
  near-grayscale branch of the verdict can hold.
\<close>

lemma few_colors_only_grayscale:
  "uniqueColors s \<le> 50 \<Longrightarrow>
     detectPattern s = (uniqueColors s < 50 \<and> js_lt (avgColorVariance s) 10)"
  by (auto simp: detectPattern_def thermalColorPattern_def hasModerateColors_def
      hasColorGradient_def)

text \<open>
  Claim C8. When the \<open>colorVariance\<close> accumulator is zero (an all-black image, or any
  image whose sampled pixels are grey), \<open>redBias\<close> and \<open>blueBias\<close> are 0: the
  quotient is not computed. Of the four branches of the heuristic verdict the three
  others are false, so the verdict is exactly the near-grayscale branch
  (\<open>uniqueColors < 50\<close> and \<open>avgColorVariance < 10\<close>); the final classification of
  such an image is then thermal only through that branch or through \<open>demoMode\<close>,
  which forces it for every image.
\<close>

theorem zero_variance_safe:
  assumes "colorVariance s = Num 0"
  shows "redBias s = 0 \<and> blueBias s = 0
     \<and> \<not> (hasThermalBias (redBias s) (blueBias s) \<and> hasModerateColors (uniqueColors s))
     \<and> \<not> (hasColorGradient (uniqueColors s) (avgColorVariance s)
            \<and> hasHighColorVariance (avgColorVariance s))
     \<and> \<not> (js_gt (avgColorVariance s) 150 \<and> uniqueColors s > 100)
     \<and> detectPattern s = (uniqueColors s < 50 \<and> js_lt (avgColorVariance s) 10)
     \<and> detectThermal demoMode imageType s
         = (demoMode \<or> (imageType \<noteq> ''visual''
                          \<and> uniqueColors s < 50 \<and> js_lt (avgColorVariance s) 10))"
proof -
  from assms have bias: "redBias s = 0" "blueBias s = 0"
    by (simp_all add: redBias_def blueBias_def)
  from assms have avg: "avgColorVariance s = NaN \<or> avgColorVariance s = Num 0"
    by (simp add: avgColorVariance_def)
  then have low: "\<not> js_gt (avgColorVariance s) 50" "\<not> js_gt (avgColorVariance s) 100"
    "\<not> js_gt (avgColorVariance s) 150"
    by auto
  have b1: "\<not> (hasThermalBias (redBias s) (blueBias s) \<and> hasModerateColors (uniqueColors s))"
    by (simp add: bias hasThermalBias_def)
  have b2: "\<not> (hasColorGradient (uniqueColors s) (avgColorVariance s)
               \<and> hasHighColorVariance (avgColorVariance s))"
    by (simp add: low hasHighColorVariance_def)
  have b4: "\<not> (js_gt (avgColorVariance s) 150 \<and> uniqueColors s > 100)"
    by (simp add: low)
  have pat: "detectPattern s = (uniqueColors s < 50 \<and> js_lt (avgColorVariance s) 10)"
    using b1 b2 b4 by (auto simp: detectPattern_def thermalColorPattern_def)
  have "detectThermal demoMode imageType s
         = (demoMode \<or> (imageType \<noteq> ''visual''
                          \<and> uniqueColors s < 50 \<and> js_lt (avgColorVariance s) 10))"
    by (auto simp: detectThermal_def isThermalImage_def pat)
  with bias b1 b2 b4 pat show ?thesis
    by blast
qed

theorem zero_variance_safe_witness:
  "colorVariance (sample_image black_pixel) = Num 0
   \<and> redBias (sample_image black_pixel) = 0 \<and> blueBias (sample_image black_pixel) = 0
   \<and> detectPattern (sample_image black_pixel)
   \<and> uniqueColors (sample_image black_pixel) = 1
   \<and> avgColorVariance (sample_image black_pixel) = Num 0"
proof -
  have z: "colorVariance (sample_image black_pixel) = Num 0"
    by (simp add: sample_black_pixel)
  have f: "uniqueColors (sample_image black_pixel) = 1"
    "avgColorVariance (sample_image black_pixel) = Num 0"
    by (simp_all add: sample_black_pixel uniqueColors_def avgColorVariance_def)
  from zero_variance_safe [OF z] z f show ?thesis
    by simp
qed

subsection \<open>The three answers to a decoded submission\<close>

lemma POST_non_thermal:
  assumes "intake req store = Inr sub"
    and "\<not> detectThermal (sub_demoMode sub) (sub_imageType sub) (sample_image (sub_raw sub))"
  shows "POST req store =
           \<lparr>response = \<lparr>status = 200, body = Result nonThermalResult\<rparr>,
            rateLimitStore = sub_store sub, auditLines = [], visionCalls = 0\<rparr>"
  using assms by (simp add: POST_def processSubmission_def)

lemma POST_fallback:
  assumes "intake req store = Inr sub"
    and "detectThermal (sub_demoMode sub) (sub_imageType sub) (sample_image (sub_raw sub))"
    and "visionCall req = Inl err"
  shows "POST req store =
           \<lparr>response = \<lparr>status = 200, body = Result fallbackResult\<rparr>,
            rateLimitStore = sub_store sub, auditLines = [], visionCalls = 1\<rparr>"
  using assms by (simp add: POST_def processSubmission_def analyzeThermal_def)

lemma POST_success:
  assumes "intake req store = Inr sub"
    and "detectThermal (sub_demoMode sub) (sub_imageType sub) (sample_image (sub_raw sub))"
    and "visionCall req = Inr v"
  shows "response (POST req store)
           = \<lparr>status = 200, body = Result (finalResponse req True (sub_metadata sub) v)\<rparr>"
  using assms by (simp add: POST_def processSubmission_def analyzeThermal_def Let_def)

lemma upload_thermal:
  "detectThermal False (str_or None ''auto'') (sample_image black_pixel)"
  by (simp add: detectThermal_def isThermalImage_def black_pixel_pattern str_or_def)

text \<open>
  Claim C1. For every request that reaches the inference call (the submission is
  decoded and classified thermal) and whose guarded inference block fails with any
  exception, the handler answers with status 200, never 500, and the body
  \<^verbatim>\<open>{hotspots: [], severity: 'unknown', confidence: 0.5, metadata: {totalHotspots: 0,
  maxTemperature: null, affectedArea: 0, message, error: 'vision_api_error'}}\<close>,
  the message saying that the analysis is temporarily unavailable.
\<close>

theorem inference_failure_fallback:
  assumes "intake req store = Inr sub"
    and "detectThermal (sub_demoMode sub) (sub_imageType sub) (sample_image (sub_raw sub))"
    and "visionCall req = Inl err"
  shows "response (POST req store) =
           \<lparr>status = 200,
            body = Result
              \<lparr>res_requestId = None, severity = ''unknown'', hotspots = [],
               confidence = 5 / 10,
               metadata =
                 \<lparr>totalHotspots = 0, maxTemperature = None, affectedArea = 0,
                  message = Some ''Advanced analysis temporarily unavailable. Please try again.'',
                  md_error = Some ''vision_api_error'', md_imageType = None,
                  dimensions = None, md_processingTime = None, md_timestamp = None,
                  analysis = None, recommendations = None, aiModel = None,
                  md_confidence = None\<rparr>\<rparr>\<rparr>
         \<and> status (response (POST req store)) \<noteq> 500
         \<and> visionCalls (POST req store) = 1"
  using POST_fallback [OF assms] by (simp add: fallbackResult_def)

theorem inference_failure_fallback_witness:
  "\<not> isl (intake (upload_request None (Inl ''socket hang up'')) Map.empty)
   \<and> visionCall (upload_request None (Inl ''socket hang up'')) = Inl ''socket hang up''
   \<and> status (response (POST (upload_request None (Inl ''socket hang up'')) Map.empty)) = 200
   \<and> confidenceOf (response (POST (upload_request None (Inl ''socket hang up'')) Map.empty))
        = Some (1 / 2)"
proof -
  let ?w = "upload_request None (Inl ''socket hang up'')"
  have v: "visionCall ?w = Inl ''socket hang up''"
    by (simp add: upload_request_def)
  from inference_failure_fallback [OF intake_upload [of None "Inl ''socket hang up''"], of "''socket hang up''"]
    upload_thermal v
  show ?thesis
    by (simp add: intake_upload confidenceOf_def)
qed

text \<open>
  Claim C3. For every decoded submission classified non-thermal, the handler returns
  without calling the inference service, with status 200 and exactly the body
  \<^verbatim>\<open>{hotspots: [], severity: 'none', confidence: 0.95, metadata: {totalHotspots: 0,
  maxTemperature: null, affectedArea: 0, message}}\<close>; a submission declared
  \<open>visual\<close> with \<open>demoMode\<close> unset is classified non-thermal, whatever the
  heuristic says.
\<close>

theorem non_thermal_short_circuit:
  assumes "intake req store = Inr sub"
    and "\<not> detectThermal (sub_demoMode sub) (sub_imageType sub) (sample_image (sub_raw sub))
         \<or> (sub_imageType sub = ''visual'' \<and> \<not> sub_demoMode sub)"
  shows "response (POST req store) =
           \<lparr>status = 200,
            body = Result
              \<lparr>res_requestId = None, severity = ''none'', hotspots = [],
               confidence = 95 / 100,
               metadata =
                 \<lparr>totalHotspots = 0, maxTemperature = None, affectedArea = 0,
                  message = Some ''Image does not appear to be a thermal image'',
                  md_error = None, md_imageType = None,
                  dimensions = None, md_processingTime = None, md_timestamp = None,
                  analysis = None, recommendations = None, aiModel = None,
                  md_confidence = None\<rparr>\<rparr>\<rparr>
         \<and> visionCalls (POST req store) = 0"
proof -
  from assms(2)
  have "\<not> detectThermal (sub_demoMode sub) (sub_imageType sub) (sample_image (sub_raw sub))"
    by (auto simp: detectThermal_def isThermalImage_def)
  from POST_non_thermal [OF assms(1) this] show ?thesis
    by (simp add: nonThermalResult_def)
qed

theorem non_thermal_short_circuit_witness:
  "\<not> isl (intake (upload_request (Some ''visual'') (Inl ''not called'')) Map.empty)
   \<and> status (response (POST (upload_request (Some ''visual'') (Inl ''not called'')) Map.empty))
        = 200
   \<and> confidenceOf (response (POST (upload_request (Some ''visual'') (Inl ''not called''))
        Map.empty)) = Some (95 / 100)
   \<and> visionCalls (POST (upload_request (Some ''visual'') (Inl ''not called'')) Map.empty) = 0"
  using non_thermal_short_circuit
          [OF intake_upload [of "Some ''visual''" "Inl ''not called''"]]
  by (simp add: intake_upload confidenceOf_def str_or_def)

subsection \<open>Post-processing of the inference result\<close>

lemma final_hotspots:
  "v_hotspots v = Some hs \<Longrightarrow>
     hotspots (finalResponse req th md v) = map normalizeHotspot (take 50 hs)"
  by (simp add: finalResponse_def Let_def take_map)

lemma final_confidence:
  "confidence (finalResponse req True md v)
     = (case v_confidence v of None \<Rightarrow> 85 / 100
        | Some a \<Rightarrow> if a = 0 then 85 / 100 else if a > 1 then a / 100 else a)"
  by (simp add: finalResponse_def Let_def mergeConfidence_def num_or_def split: option.splits)

lemma js_round_percent:
  assumes "0 \<le> a" "a \<le> 100"
  shows "0 \<le> js_round a \<and> js_round a \<le> 100"
proof -
  from assms(1) have "0 \<le> \<lfloor>a + 1 / 2\<rfloor>" by simp
  moreover from assms(2) have "a + 1 / 2 < 101" by simp
  then have "\<lfloor>a + 1 / 2\<rfloor> < 101" by (simp add: floor_less_iff)
  ultimately show ?thesis by (simp add: js_round_def)
qed

lemma rounded_default_percent:
  assumes "\<forall>a. c = Some a \<longrightarrow> 0 \<le> a \<and> a \<le> 100"
  shows "0 \<le> js_round (num_or c 0) \<and> js_round (num_or c 0) \<le> 100"
proof (cases c)
  case None
  then show ?thesis by (simp add: num_or_def js_round_def)
next
  case (Some a)
  with assms have "0 \<le> num_or c 0" "num_or c 0 \<le> 100"
    by (simp_all add: num_or_def)
  then show ?thesis by (rule js_round_percent)
qed

lemma upload_success:
  "response (POST (upload_request None (Inr v)) Map.empty)
     = \<lparr>status = 200,
        body = Result (finalResponse (upload_request None (Inr v)) True one_by_one v)\<rparr>"
proof -
  have "visionCall (upload_request None (Inr v)) = Inr v"
    by (simp add: upload_request_def)
  from POST_success [OF intake_upload [of None "Inr v"] _ this] upload_thermal
  show ?thesis by simp
qed

text \<open>
  Claim C4. For every successful inference whose result carries a list of hotspots,
  the answer has status 200 and its \<open>hotspots\<close> array is the post-processed image
  of the first 50 of them, in their order: exactly 50 when there were more than 50,
  all of them when there were 50 or fewer.
\<close>

theorem hotspot_cap:
  assumes "intake req store = Inr sub"
    and "detectThermal (sub_demoMode sub) (sub_imageType sub) (sample_image (sub_raw sub))"
    and "visionCall req = Inr v"
    and "v_hotspots v = Some hs"
  shows "\<exists>res. response (POST req store) = \<lparr>status = 200, body = Result res\<rparr>
           \<and> hotspots res = map normalizeHotspot (take 50 hs)
           \<and> length (hotspots res) = min 50 (length hs)
           \<and> (50 < length hs \<longrightarrow> length (hotspots res) = 50)
           \<and> (length hs \<le> 50 \<longrightarrow> hotspots res = map normalizeHotspot hs)"
proof -
  let ?res = "finalResponse req True (sub_metadata sub) v"
  have "response (POST req store) = \<lparr>status = 200, body = Result ?res\<rparr>"
    by (rule POST_success [OF assms(1-3)])
  moreover have h: "hotspots ?res = map normalizeHotspot (take 50 hs)"
    by (rule final_hotspots [OF assms(4)])
  moreover from h have "length (hotspots ?res) = min 50 (length hs)"
    by (simp add: min.commute)
  moreover from h have "50 < length hs \<longrightarrow> length (hotspots ?res) = 50"
    by simp
  moreover from h have "length hs \<le> 50 \<longrightarrow> hotspots ?res = map normalizeHotspot hs"
    by simp
  ultimately show ?thesis by blast
qed

theorem hotspot_cap_witness:
  "length (coordinates (response (POST
      (upload_request None (Inr (vision_reply (replicate 60 (spot 10 20)) None))) Map.empty)))
     = 50
   \<and> coordinates (response (POST
        (upload_request None (Inr (vision_reply [spot 10 20, spot 30 40] None))) Map.empty))
       = [(10, 20), (30, 40)]"
proof (intro conjI)
  let ?many = "vision_reply (replicate 60 (spot 10 20)) None"
  have "visionCall (upload_request None (Inr ?many)) = Inr ?many"
    "v_hotspots ?many = Some (replicate 60 (spot 10 20))"
    by (simp_all add: upload_request_def vision_reply_def)
  from hotspot_cap [OF intake_upload [of None "Inr ?many"] _ this] upload_thermal
  show "length (coordinates (response (POST (upload_request None (Inr ?many)) Map.empty))) = 50"
    by (auto simp: coordinates_def)
next
  let ?few = "vision_reply [spot 10 20, spot 30 40] None"
  have "visionCall (upload_request None (Inr ?few)) = Inr ?few"
    "v_hotspots ?few = Some [spot 10 20, spot 30 40]"
    by (simp_all add: upload_request_def vision_reply_def)
  from hotspot_cap [OF intake_upload [of None "Inr ?few"] _ this] upload_thermal
  show "coordinates (response (POST (upload_request None (Inr ?few)) Map.empty))
          = [(10, 20), (30, 40)]"
    by (auto simp: coordinates_def normalizeHotspot_def spot_def num_or_def js_round_def)
qed

text \<open>
  Claim C5, as the specification words it, fails on the handler: a service confidence
  of 0 is present and not above 1, so the wording leaves it unchanged, but
  \<^verbatim>\<open>visionResult.confidence || 0.85\<close> treats it as absent and the answer carries
  0.85; and a service confidence of 250 is divided by 100 to 2.5, outside \<open>[0, 1]\<close>.
\<close>

theorem confidence_zero_counterexample:
  "confidenceOf (response (POST
      (upload_request None (Inr (vision_reply [] (Some 0)))) Map.empty)) = Some (85 / 100)
   \<and> spec_confidence (Some 0) = 0
   \<and> confidenceOf (response (POST
        (upload_request None (Inr (vision_reply [] (Some 250)))) Map.empty)) = Some (5 / 2)"
  by (simp add: upload_success confidenceOf_def final_confidence
      vision_reply_def spec_confidence_def)

text \<open>
  Claim C5, amended. For every successful inference the top-level confidence of the
  answer is: 0.85 when the service gives no confidence or gives 0; the service value
  divided by 100 when it is above 1; the service value itself otherwise. This is the
  specification's rule for every service value other than 0, it overrides the base
  confidence, and it lies in \<open>[0, 1]\<close> whenever the service value lies in
  \<open>[0, 100]\<close>.
\<close>

theorem confidence_normalization:
  assumes "intake req store = Inr sub"
    and "detectThermal (sub_demoMode sub) (sub_imageType sub) (sample_image (sub_raw sub))"
    and "visionCall req = Inr v"
  shows "confidenceOf (response (POST req store))
           = Some (case v_confidence v of
                     None \<Rightarrow> 85 / 100
                   | Some c \<Rightarrow> if c = 0 then 85 / 100 else if c > 1 then c / 100 else c)
         \<and> (v_confidence v \<noteq> Some 0 \<longrightarrow>
              confidenceOf (response (POST req store)) = Some (spec_confidence (v_confidence v)))
         \<and> ((\<forall>c. v_confidence v = Some c \<longrightarrow> 0 \<le> c \<and> c \<le> 100) \<longrightarrow>
              (\<exists>r. confidenceOf (response (POST req store)) = Some r \<and> 0 \<le> r \<and> r \<le> 1))"
proof -
  have c: "confidenceOf (response (POST req store))
           = Some (case v_confidence v of
                     None \<Rightarrow> 85 / 100
                   | Some c \<Rightarrow> if c = 0 then 85 / 100 else if c > 1 then c / 100 else c)"
    by (simp add: POST_success [OF assms] confidenceOf_def final_confidence)
  have s: "v_confidence v \<noteq> Some 0 \<longrightarrow>
              confidenceOf (response (POST req store)) = Some (spec_confidence (v_confidence v))"
    by (simp add: c spec_confidence_def split: option.splits)
  have r: "(\<forall>c. v_confidence v = Some c \<longrightarrow> 0 \<le> c \<and> c \<le> 100) \<longrightarrow>
              (\<exists>r. confidenceOf (response (POST req store)) = Some r \<and> 0 \<le> r \<and> r \<le> 1)"
    by (auto simp: c split: option.splits)
  from c s r show ?thesis by blast
qed

theorem confidence_normalization_witness:
  "confidenceOf (response (POST
      (upload_request None (Inr (vision_reply [] (Some 85)))) Map.empty)) = Some (85 / 100)
   \<and> confidenceOf (response (POST
        (upload_request None (Inr (vision_reply [] (Some (4 / 10))))) Map.empty))
       = Some (4 / 10)
   \<and> spec_confidence (Some 85) = 85 / 100"
proof (intro conjI)
  let ?a = "vision_reply [] (Some 85)"
  have "visionCall (upload_request None (Inr ?a)) = Inr ?a"
    by (simp add: upload_request_def)
  from confidence_normalization [OF intake_upload [of None "Inr ?a"] _ this] upload_thermal
  show "confidenceOf (response (POST (upload_request None (Inr ?a)) Map.empty))
          = Some (85 / 100)"
    by (simp add: vision_reply_def)
next
  let ?b = "vision_reply [] (Some (4 / 10))"
  have "visionCall (upload_request None (Inr ?b)) = Inr ?b"
    by (simp add: upload_request_def)
  from confidence_normalization [OF intake_upload [of None "Inr ?b"] _ this] upload_thermal
  show "confidenceOf (response (POST (upload_request None (Inr ?b)) Map.empty))
          = Some (4 / 10)"
    by (simp add: vision_reply_def)
next
  show "spec_confidence (Some 85) = 85 / 100"
    by (simp add: spec_confidence_def)
qed

text \<open>
  Claim C7, as stated, fails on the handler: the coordinates are rounded but not
  clamped. A hotspot returned at \<open>x = 150\<close>, \<open>y = -3\<close> is answered at \<open>(150, -3)\<close>.
\<close>

theorem coordinates_unclamped_counterexample:
  "coordinates (response (POST
      (upload_request None (Inr (vision_reply [spot 150 (- 3)] None))) Map.empty))
     = [(150, - 3)]"
  by (simp add: upload_success coordinates_def final_hotspots vision_reply_def
      normalizeHotspot_def spot_def num_or_def js_round_def)

text \<open>
  Claim C7, amended. For every hotspot in the assembled response, \<open>x\<close> and \<open>y\<close> are
  integers: the service's value (0 when absent or zero) rounded to the nearest
  integer, halves up. They are not clamped; they lie in the closed range 0 to 100
  whenever the value the service returned does.
\<close>

theorem hotspot_coordinates_rounded:
  assumes "intake req store = Inr sub"
    and "detectThermal (sub_demoMode sub) (sub_imageType sub) (sample_image (sub_raw sub))"
    and "visionCall req = Inr v"
    and "v_hotspots v = Some hs"
  shows "coordinates (response (POST req store))
           = map (\<lambda>h. (js_round (num_or (in_x h) 0), js_round (num_or (in_y h) 0))) (take 50 hs)
         \<and> (\<forall>i < length (coordinates (response (POST req store))).
               ((\<forall>a. in_x (hs ! i) = Some a \<longrightarrow> 0 \<le> a \<and> a \<le> 100) \<longrightarrow>
                  0 \<le> fst (coordinates (response (POST req store)) ! i)
                  \<and> fst (coordinates (response (POST req store)) ! i) \<le> 100)
             \<and> ((\<forall>a. in_y (hs ! i) = Some a \<longrightarrow> 0 \<le> a \<and> a \<le> 100) \<longrightarrow>
                  0 \<le> snd (coordinates (response (POST req store)) ! i)
                  \<and> snd (coordinates (response (POST req store)) ! i) \<le> 100))"
proof -
  have c: "coordinates (response (POST req store))
           = map (\<lambda>h. (js_round (num_or (in_x h) 0), js_round (num_or (in_y h) 0))) (take 50 hs)"
    by (simp add: POST_success [OF assms(1-3)] coordinates_def final_hotspots [OF assms(4)]
        normalizeHotspot_def)
  show ?thesis
    unfolding c by (auto simp: rounded_default_percent)
qed

theorem hotspot_coordinates_rounded_witness:
  "coordinates (response (POST
      (upload_request None (Inr (vision_reply [spot (81 / 2) (996 / 10)] None))) Map.empty))
     = [(41, 100)]"
proof -
  let ?v = "vision_reply [spot (81 / 2) (996 / 10)] None"
  have "visionCall (upload_request None (Inr ?v)) = Inr ?v"
    "v_hotspots ?v = Some [spot (81 / 2) (996 / 10)]"
    by (simp_all add: upload_request_def vision_reply_def)
  from hotspot_coordinates_rounded [OF intake_upload [of None "Inr ?v"] _ this] upload_thermal
  show ?thesis
    by (simp add: spot_def num_or_def js_round_def)
qed

subsection \<open>Early returns: status, audit line, inference calls\<close>

lemma decodeStage_early:
  "decodeStage req st a it dm = Inl out \<Longrightarrow>
     visionCalls out = 0
     \<and> ((status (response out) = 400 \<and> auditLines out = [])
          \<or> (status (response out) = 500 \<and> length (auditLines out) = 1))"
  by (auto simp: decodeStage_def Let_def outerCatch_def reject400_def split: sum.splits)

lemma validateStage_early:
  "validateStage req st a = Inl out \<Longrightarrow>
     visionCalls out = 0
     \<and> ((status (response out) = 400 \<and> auditLines out = [])
          \<or> (status (response out) = 500 \<and> length (auditLines out) = 1))"
  by (auto simp: validateStage_def Let_def outerCatch_def reject400_def
      dest: decodeStage_early split: sum.splits option.splits if_splits)

lemma intake_early:
  "intake req st = Inl out \<Longrightarrow>
     visionCalls out = 0
     \<and> ((status (response out) = 429 \<and> auditLines out = [])
          \<or> (status (response out) = 400 \<and> auditLines out = [])
          \<or> (status (response out) = 500 \<and> length (auditLines out) = 1))"
  by (auto simp: intake_def Let_def dest: validateStage_early
      split: prod.splits rate_outcome.splits)

lemma decodeStage_passed:
  "decodeStage req st a it dm = Inr sub \<Longrightarrow>
     arrayBuffer req = Inr () \<and> checkedMetadata req = Inr (sub_metadata sub)
     \<and> sharpRaw req = Inr (sub_raw sub)"
  by (auto simp: decodeStage_def Let_def split: sum.splits)

lemma validateStage_passed:
  "validateStage req st a = Inr sub \<Longrightarrow>
     \<exists>fd file. formData req = Inr fd \<and> image fd = Some file
        \<and> file_size file \<le> MAX_FILE_SIZE
        \<and> fileExtension (file_name file) \<in> set ALLOWED_FORMATS
        \<and> checkedMetadata req = Inr (sub_metadata sub)
        \<and> sharpRaw req = Inr (sub_raw sub)"
  by (auto simp: validateStage_def Let_def dest: decodeStage_passed
      split: sum.splits option.splits if_splits)

lemma intake_passed:
  "intake req st = Inr sub \<Longrightarrow>
     fst (rateLimitCheck st (clientIp req) (now req)) = Proceed
     \<and> (\<exists>fd file. formData req = Inr fd \<and> image fd = Some file
          \<and> file_size file \<le> MAX_FILE_SIZE
          \<and> fileExtension (file_name file) \<in> set ALLOWED_FORMATS
          \<and> checkedMetadata req = Inr (sub_metadata sub)
          \<and> sharpRaw req = Inr (sub_raw sub))"
  by (auto simp: intake_def Let_def dest: validateStage_passed
      split: prod.splits rate_outcome.splits)

lemma POST_missing_file:
  "POST missing_file_request Map.empty =
     \<lparr>response = \<lparr>status = 400,
        body = Failed \<lparr>error_text = ''Please provide a valid image file'',
                 err_requestId = ''req-2'', retryAfter = None, support = None\<rparr>\<rparr>,
      rateLimitStore = [''10.0.0.1'' \<mapsto> \<lparr>count = 1, resetTime = 3601000\<rparr>],
      auditLines = [], visionCalls = 0\<rparr>"
  by (simp add: POST_def intake_def clientIp_def missing_file_request_def rateLimitCheck_def
      str_or_def validateStage_def reject400_def RATE_WINDOW_def Let_def)

text \<open>
  Claim C9 on the handler. The audit line is printed on the successful path and in the
  outermost \<^verbatim>\<open>catch\<close> only. A request without a file is answered 400 after
  \<^verbatim>\<open>auditLog.details\<close> has been assigned, and no audit line is printed.
\<close>

theorem audit_missing_on_rejection:
  "status (response (POST missing_file_request Map.empty)) = 400
   \<and> auditLines (POST missing_file_request Map.empty) = []"
  by (simp add: POST_missing_file)

text \<open>
  The same holds for every answer with status 400 or 429, for the non-thermal
  short-circuit and for the fallback after a failed inference: no audit line.
\<close>

lemma no_audit_line_paths:
  "status (response (POST req store)) = 400 \<or> status (response (POST req store)) = 429
     \<Longrightarrow> auditLines (POST req store) = []"
  "intake req store = Inr sub \<Longrightarrow>
     \<not> detectThermal (sub_demoMode sub) (sub_imageType sub) (sample_image (sub_raw sub))
     \<Longrightarrow> auditLines (POST req store) = []"
  "intake req store = Inr sub \<Longrightarrow>
     detectThermal (sub_demoMode sub) (sub_imageType sub) (sample_image (sub_raw sub))
     \<Longrightarrow> visionCall req = Inl err \<Longrightarrow> auditLines (POST req store) = []"
proof -
  show "status (response (POST req store)) = 400 \<or> status (response (POST req store)) = 429
     \<Longrightarrow> auditLines (POST req store) = []"
    by (cases "intake req store")
       (auto simp: POST_def processSubmission_200 dest: intake_early)
  show "intake req store = Inr sub \<Longrightarrow>
     \<not> detectThermal (sub_demoMode sub) (sub_imageType sub) (sample_image (sub_raw sub))
     \<Longrightarrow> auditLines (POST req store) = []"
    by (simp add: POST_non_thermal)
  show "intake req store = Inr sub \<Longrightarrow>
     detectThermal (sub_demoMode sub) (sub_imageType sub) (sample_image (sub_raw sub))
     \<Longrightarrow> visionCall req = Inl err \<Longrightarrow> auditLines (POST req store) = []"
    by (simp add: POST_fallback)
qed

text \<open>
  Claim C10, as stated, fails on the handler: the rate limiter runs before the form
  is parsed. A request without a file from a new client is answered 400 and has
  already been counted; the same request from a client at the cap is answered 429,
  the validator never seeing it.
\<close>

theorem validation_after_rate_limit_counterexample:
  "status (response (POST missing_file_request Map.empty)) = 400
   \<and> rateLimitStore (POST missing_file_request Map.empty) ''10.0.0.1''
       = Some \<lparr>count = 1, resetTime = 3601000\<rparr>
   \<and> status (response (POST missing_file_request
        [''10.0.0.1'' \<mapsto> \<lparr>count = 100, resetTime = 5000\<rparr>])) = 429"
proof -
  have "rateLimitCheck [''10.0.0.1'' \<mapsto> \<lparr>count = 100, resetTime = 5000\<rparr>]
          (clientIp missing_file_request) (now missing_file_request)
        = (Rejected 4, [''10.0.0.1'' \<mapsto> \<lparr>count = 100, resetTime = 5000\<rparr>])"
    by (simp add: rateLimitCheck_def clientIp_def missing_file_request_def str_or_def
        RATE_LIMIT_def)
  then show ?thesis
    by (simp add: POST_missing_file POST_429_iff)
qed

text \<open>
  Claim C10, amended. For every request the components run in the order Rate Limiter,
  then Validator, then Thermal Pattern Detector: the rate limiter reads and updates
  the client's counter first, whatever the form holds; a request it rejects is
  answered 429 without validation; a request answered 400 has passed the rate limiter
  and has been counted; and the detector and the inference service only see a
  submission that has passed the rate limiter and every check of the validator.
\<close>

theorem rate_limiter_runs_first:
  "rateLimitStore (POST req store) = snd (rateLimitCheck store (clientIp req) (now req))
   \<and> (fst (rateLimitCheck store (clientIp req) (now req)) \<noteq> Proceed \<longrightarrow>
        status (response (POST req store)) = 429 \<and> visionCalls (POST req store) = 0)
   \<and> (status (response (POST req store)) = 400 \<longrightarrow>
        fst (rateLimitCheck store (clientIp req) (now req)) = Proceed)
   \<and> (\<forall>sub. intake req store = Inr sub \<longrightarrow>
        fst (rateLimitCheck store (clientIp req) (now req)) = Proceed
        \<and> (\<exists>fd file. formData req = Inr fd \<and> image fd = Some file
             \<and> file_size file \<le> MAX_FILE_SIZE
             \<and> fileExtension (file_name file) \<in> set ALLOWED_FORMATS
             \<and> checkedMetadata req = Inr (sub_metadata sub)
             \<and> sharpRaw req = Inr (sub_raw sub)))
   \<and> (visionCalls (POST req store) = 1 \<longrightarrow> (\<exists>sub. intake req store = Inr sub))"
proof (intro conjI impI allI)
  show "rateLimitStore (POST req store) = snd (rateLimitCheck store (clientIp req) (now req))"
    by (rule POST_store)
next
  assume r: "fst (rateLimitCheck store (clientIp req) (now req)) \<noteq> Proceed"
  then show "status (response (POST req store)) = 429"
    by (simp add: POST_429_iff)
  from r show "visionCalls (POST req store) = 0"
    by (cases "intake req store")
       (auto simp: POST_def dest: intake_early intake_passed)
next
  assume "status (response (POST req store)) = 400"
  then have "status (response (POST req store)) \<noteq> 429" by simp
  then show "fst (rateLimitCheck store (clientIp req) (now req)) = Proceed"
    by (simp add: POST_429_iff)
next
  fix sub
  assume i: "intake req store = Inr sub"
  from intake_passed [OF i]
  show "fst (rateLimitCheck store (clientIp req) (now req)) = Proceed"
    and "\<exists>fd file. formData req = Inr fd \<and> image fd = Some file
             \<and> file_size file \<le> MAX_FILE_SIZE
             \<and> fileExtension (file_name file) \<in> set ALLOWED_FORMATS
             \<and> checkedMetadata req = Inr (sub_metadata sub)
             \<and> sharpRaw req = Inr (sub_raw sub)"
    by blast+
next
  assume "visionCalls (POST req store) = 1"
  then show "\<exists>sub. intake req store = Inr sub"
    by (cases "intake req store") (auto simp: POST_def dest: intake_early)
qed

theorem rate_limiter_runs_first_witness:
  "status (response (POST missing_file_request
      [''10.0.0.1'' \<mapsto> \<lparr>count = 100, resetTime = 5000\<rparr>])) = 429
   \<and> status (response (POST missing_file_request Map.empty)) = 400
   \<and> fst (rateLimitCheck Map.empty (clientIp missing_file_request)
            (now missing_file_request)) = Proceed
   \<and> \<not> isl (intake (upload_request None (Inl ''down'')) Map.empty)
   \<and> visionCalls (POST (upload_request None (Inl ''down'')) Map.empty) = 1
   \<and> fst (rateLimitCheck Map.empty (clientIp (upload_request None (Inl ''down'')))
            (now (upload_request None (Inl ''down'')))) = Proceed"
proof (intro conjI)
  have "fst (rateLimitCheck [''10.0.0.1'' \<mapsto> \<lparr>count = 100, resetTime = 5000\<rparr>]
          (clientIp missing_file_request) (now missing_file_request)) \<noteq> Proceed"
    by (simp add: rateLimitCheck_def clientIp_def missing_file_request_def str_or_def
        RATE_LIMIT_def)
  with rate_limiter_runs_first [of missing_file_request
      "[''10.0.0.1'' \<mapsto> \<lparr>count = 100, resetTime = 5000\<rparr>]"]
  show "status (response (POST missing_file_request
      [''10.0.0.1'' \<mapsto> \<lparr>count = 100, resetTime = 5000\<rparr>])) = 429"
    by blast
next
  show s: "status (response (POST missing_file_request Map.empty)) = 400"
    by (simp add: POST_missing_file)
  with rate_limiter_runs_first [of missing_file_request Map.empty]
  show "fst (rateLimitCheck Map.empty (clientIp missing_file_request)
            (now missing_file_request)) = Proceed"
    by blast
next
  let ?w = "upload_request None (Inl ''down'')"
  show i: "\<not> isl (intake ?w Map.empty)"
    by (simp add: intake_upload)
  show c: "visionCalls (POST ?w Map.empty) = 1"
    using POST_fallback [OF intake_upload [of None "Inl ''down''"], of "''down''"] upload_thermal
    by (simp add: upload_request_def)
  from rate_limiter_runs_first [of ?w Map.empty] intake_upload [of None "Inl ''down''"]
  show "fst (rateLimitCheck Map.empty (clientIp ?w) (now ?w)) = Proceed"
    by blast
qed

end
